theory Spec2Isabelle
  imports Complex_Main "HOL-Library.Multiset"
begin

section \<open>Errors\<close>

text \<open>
  The Python exceptions that the modelled code can raise.  \<open>Exception msg\<close> is the plain
  \<^verbatim>\<open>Exception(msg)\<close> of the data loaders.
\<close>

datatype error =
    ZeroDivisionError
  | ValueError
  | AttributeError
  | KeyError
  | Exception string

section \<open>The data loaders (utility/simple\_data\_loader.py)\<close>

text \<open>
  \<^verbatim>\<open>str.lower()\<close>.  A \<open>string\<close> is a list of bytes; the ASCII capitals are mapped to
  their small letters and every other byte is kept.  The loaders only compare the result
  with the ASCII words \<^verbatim>\<open>predicate\<close> and \<^verbatim>\<open>framenet\<close>.
\<close>

definition lower_char :: "char \<Rightarrow> char" where
  "lower_char c =
     (let n = (of_char c :: nat)
      in if 65 \<le> n \<and> n \<le> 90 then char_of (n + 32) else c)"

definition lower :: "string \<Rightarrow> string" where
  "lower s = map lower_char s"

text \<open>
  The frame that \<^verbatim>\<open>pd.read_csv\<close> returns, as far as the loaders read it: the number of
  rows and the three columns they touch, \<open>None\<close> for a column the file does not have.
  A cell of an answer column is a label or is missing (\<^verbatim>\<open>NaN\<close>, what pandas makes of an
  empty field); the labels of a column are of one type.
  Reading the file itself is outside the model, so the frame is the loaders' argument.
\<close>

datatype 'l cell = NaN | Label 'l

record ('t, 'l) dataframe =
  n_rows :: nat
  text_col :: "'t list option"
  predicate_answer :: "'l cell list option"
  framenet_answer :: "'l cell list option"

definition LABEL_TYPE_msg :: string where
  "LABEL_TYPE_msg = ''Argument LABEL_TYPE should be selected between predicate and framenet.''"

text \<open>
  The loop \<^verbatim>\<open>for idx, row in df.iterrows(): result.append((row['text'], row[col]))\<close>.
  With no row the body never runs; otherwise \<^verbatim>\<open>row['text']\<close> and then \<^verbatim>\<open>row[col]\<close>
  raise \<^verbatim>\<open>KeyError\<close> for a missing column.
\<close>

definition iter_rows ::
  "('t, 'l) dataframe \<Rightarrow> 'l cell list option \<Rightarrow> error + ('t \<times> 'l cell) list" where
  "iter_rows df col =
     (if n_rows df = 0 then Inr []
      else
       (case text_col df of
          None \<Rightarrow> Inl KeyError
        | Some ts \<Rightarrow> (case col of None \<Rightarrow> Inl KeyError | Some ls \<Rightarrow> Inr (zip ts ls))))"

definition load_csv_dataset ::
  "('t, 'l) dataframe \<Rightarrow> string \<Rightarrow> error + ('t \<times> 'l cell) list" where
  "load_csv_dataset df label_type =
     (if lower label_type = ''predicate'' then iter_rows df (predicate_answer df)
      else if lower label_type = ''framenet'' then iter_rows df (framenet_answer df)
      else Inl (Exception LABEL_TYPE_msg))"

text \<open>
  \<^verbatim>\<open>LabelEncoder().fit_transform(col)\<close>: the classes are the distinct labels in sorted
  order, followed by one class for \<^verbatim>\<open>NaN\<close> when a cell is missing, and every cell is
  replaced by the position of its class.
  \<^verbatim>\<open>col.nunique()\<close> counts the distinct labels and leaves missing cells out.
\<close>

fun index_of :: "'a list \<Rightarrow> 'a \<Rightarrow> nat" where
  "index_of [] y = 0"
| "index_of (x # xs) y = (if x = y then 0 else Suc (index_of xs y))"

fun labels_in :: "'l cell list \<Rightarrow> 'l list" where
  "labels_in [] = []"
| "labels_in (NaN # cs) = labels_in cs"
| "labels_in (Label v # cs) = v # labels_in cs"

definition classes_of :: "'l::linorder cell list \<Rightarrow> 'l list" where
  "classes_of col = sort (remdups (labels_in col))"

definition encode :: "'l list \<Rightarrow> 'l cell \<Rightarrow> nat" where
  "encode classes c = (case c of NaN \<Rightarrow> length classes | Label v \<Rightarrow> index_of classes v)"

definition fit_transform :: "'l::linorder cell list \<Rightarrow> nat list" where
  "fit_transform col = map (encode (classes_of col)) col"

definition nunique :: "'l cell list \<Rightarrow> nat" where
  "nunique col = length (remdups (labels_in col))"

text \<open>
  \<^verbatim>\<open>load_bert_data\<close>.  \<^verbatim>\<open>df.text\<close> is read before \<open>label_type\<close> is looked at, and
  an attribute access on a missing column raises \<^verbatim>\<open>AttributeError\<close>.
\<close>

definition load_bert_data ::
  "('t, 'l::linorder) dataframe \<Rightarrow> string \<Rightarrow> error + ('t list \<times> nat list \<times> nat)" where
  "load_bert_data df label_type =
     (case text_col df of
        None \<Rightarrow> Inl AttributeError
      | Some X \<Rightarrow>
         (if lower label_type = ''predicate'' then
            (case predicate_answer df of
               None \<Rightarrow> Inl AttributeError
             | Some col \<Rightarrow> Inr (X, fit_transform col, nunique col))
          else if lower label_type = ''framenet'' then
            (case framenet_answer df of
               None \<Rightarrow> Inl AttributeError
             | Some col \<Rightarrow> Inr (X, fit_transform col, nunique col))
          else Inl (Exception LABEL_TYPE_msg)))"

section \<open>Library functions used by the classifier (numpy, os, str)\<close>

text \<open>
  \<^verbatim>\<open>np.concatenate(arrays, axis=0)\<close> on a Python list of arrays: it raises
  \<^verbatim>\<open>ValueError\<close> ("need at least one array to concatenate") on the empty list.
  \<open>np_concatenate\<close> is the call on one-dimensional arrays.  \<open>np_concatenate_rows\<close> is the
  call on two-dimensional arrays, an array being the list of its rows: arrays whose rows
  differ in width are refused with \<^verbatim>\<open>ValueError\<close> as well (an array without rows is
  taken to have the width of the others).
\<close>

definition np_concatenate :: "'a list list \<Rightarrow> error + 'a list" where
  "np_concatenate arrs = (if arrs = [] then Inl ValueError else Inr (concat arrs))"

definition uniform_width :: "'a list list \<Rightarrow> bool" where
  "uniform_width rows =
     (case rows of [] \<Rightarrow> True | r # rs \<Rightarrow> (\<forall>r'\<in>set rs. length r' = length r))"

definition np_concatenate_rows :: "'a list list list \<Rightarrow> error + 'a list list" where
  "np_concatenate_rows arrs =
     (if arrs = [] then Inl ValueError
      else if \<not> uniform_width (concat arrs) then Inl ValueError
      else Inr (concat arrs))"

text \<open>
  \<^verbatim>\<open>np.argmax\<close> of one row: a scan that keeps the position of the running maximum and
  moves only on a strictly greater entry; the empty row raises \<^verbatim>\<open>ValueError\<close>.
  \<open>np_argmax\<close> is \<^verbatim>\<open>np.argmax(predictions, axis=1).flatten()\<close>.  Class scores are
  reals (no NaN).
\<close>

fun argmax_from :: "real \<Rightarrow> nat \<Rightarrow> nat \<Rightarrow> real list \<Rightarrow> nat" where
  "argmax_from mp mi i [] = mi"
| "argmax_from mp mi i (x # xs) =
     (if mp < x then argmax_from x i (Suc i) xs else argmax_from mp mi (Suc i) xs)"

definition argmax :: "real list \<Rightarrow> error + nat" where
  "argmax row = (case row of [] \<Rightarrow> Inl ValueError | x # xs \<Rightarrow> Inr (argmax_from x 0 1 xs))"

fun np_argmax :: "real list list \<Rightarrow> error + nat list" where
  "np_argmax [] = Inr []"
| "np_argmax (row # rows) =
     (case argmax row of
        Inl e \<Rightarrow> Inl e
      | Inr j \<Rightarrow> (case np_argmax rows of Inl e \<Rightarrow> Inl e | Inr js \<Rightarrow> Inr (j # js)))"

text \<open>\<^verbatim>\<open>str(n)\<close> for an integer, \<^verbatim>\<open>sep.join(parts)\<close> and \<^verbatim>\<open>os.path.join(a, b)\<close>.\<close>

definition digit_char :: "nat \<Rightarrow> char" where
  "digit_char d = char_of (48 + d)"

function str_nat :: "nat \<Rightarrow> string" where
  "str_nat n = (if n < 10 then [digit_char n] else str_nat (n div 10) @ [digit_char (n mod 10)])"
  by pat_completeness auto
termination
  by (relation "measure id") auto

declare str_nat.simps [simp del]

definition str_int :: "int \<Rightarrow> string" where
  "str_int i = (if i < 0 then CHR ''-'' # str_nat (nat (- i)) else str_nat (nat i))"

fun join :: "string \<Rightarrow> string list \<Rightarrow> string" where
  "join sep [] = []"
| "join sep [x] = x"
| "join sep (x # y # ys) = x @ sep @ join sep (y # ys)"

definition os_path_join :: "string \<Rightarrow> string \<Rightarrow> string" where
  "os_path_join a b =
     (if b \<noteq> [] \<and> hd b = CHR ''/'' then b
      else if a = [] \<or> last a = CHR ''/'' then a @ b
      else a @ ''/'' @ b)"

text \<open>
  \<^verbatim>\<open>str(round(f1, 4))\<close> for a score \<open>f1 \<ge> 0\<close>, on the reals: the nearest multiple of
  \<open>1/10000\<close>, a tie going to the even one, printed with its fraction digits up to the
  last non-zero one (at least one digit).
\<close>

definition rint :: "real \<Rightarrow> int" where
  "rint x =
     (let f = \<lfloor>x\<rfloor>; d = x - of_int f
      in if d < 1 / 2 then f else if 1 / 2 < d then f + 1 else if even f then f else f + 1)"

definition strip_zeros :: "nat list \<Rightarrow> nat list" where
  "strip_zeros ds =
     (let r = rev (dropWhile (\<lambda>d. d = 0) (rev ds)) in if r = [] then [0] else r)"

definition str_round4 :: "real \<Rightarrow> string" where
  "str_round4 x =
     (let m = nat (rint (x * 10000)); fp = m mod 10000
      in str_nat (m div 10000) @ ''.'' @
         map digit_char (strip_zeros [fp div 1000, fp div 100 mod 10, fp div 10 mod 10, fp mod 10]))"

section \<open>The classifier object and the files it writes (berts.py)\<close>

text \<open>
  What one batch of the held-out set yields in \<^verbatim>\<open>eval\<close>: \<^verbatim>\<open>loss.item()\<close>, the logits
  (one row of class scores per example) and the label ids.  The model's forward pass and
  \<^verbatim>\<open>make_smart_batches\<close> are outside the source files, so the per-batch outputs are
  arguments of the functions below.
\<close>

record batch_out =
  b_loss :: real
  b_logits :: "real list list"
  b_label_ids :: "int list"

datatype file_content =
    CheckpointState
  | ClfReport "int list" "nat list"
  | PredictionCsv "(string \<times> nat) list"

datatype call = TrainCall int | EvalCall int real

text \<open>
  The part of \<^verbatim>\<open>self\<close> and of the file system that the methods read and write.
  An attribute that has not been assigned is \<open>None\<close>.  \<open>scheduler_steps\<close> is the
  \<^verbatim>\<open>num_training_steps\<close> of \<^verbatim>\<open>self.scheduler\<close>; \<open>files\<close> lists the writes in order;
  \<open>calls\<close> records the invocations of \<^verbatim>\<open>train\<close> and \<^verbatim>\<open>eval\<close> (with the epoch, and
  for \<^verbatim>\<open>eval\<close> the \<^verbatim>\<open>best_score\<close> argument) and exists only to state properties.
  Printing, timing and failures of the file system are left out.
\<close>

record bert =
  model_name :: string
  scheduler_steps :: "int option"
  true_labels :: "int list option"
  predictions :: "real list list option"
  preds :: "nat list option"
  dirs :: "string list"
  files :: "(string \<times> file_content) list"
  calls :: "call list"

definition init_bert :: "string \<Rightarrow> bert" where
  "init_bert name =
     \<lparr>model_name = name, scheduler_steps = None, true_labels = None, predictions = None,
      preds = None, dirs = [], files = [], calls = []\<rparr>"

definition ensure_dir :: "string \<Rightarrow> bert \<Rightarrow> bert" where
  "ensure_dir d s = (if d \<in> set (dirs s) then s else s\<lparr>dirs := dirs s @ [d]\<rparr>)"

definition write_file :: "string \<Rightarrow> file_content \<Rightarrow> bert \<Rightarrow> bert" where
  "write_file p c s = s\<lparr>files := files s @ [(p, c)]\<rparr>"

definition checkpoint_path :: "string \<Rightarrow> string \<Rightarrow> int \<Rightarrow> real \<Rightarrow> string" where
  "checkpoint_path name now epoch_i f1 =
     os_path_join ''./models_BERT''
       (join ''_'' [name, now, ''EPOCH'', str_int epoch_i, ''F1'', str_round4 f1] @ ''.pth'')"

subsection \<open>train\<close>

text \<open>
  The batch loop of \<^verbatim>\<open>train\<close>, over the \<^verbatim>\<open>loss.item()\<close> of each batch.
  \<^verbatim>\<open>step % update_interval\<close> raises for a zero interval; otherwise the test only prints.
\<close>

fun train_loop :: "int \<Rightarrow> real list \<Rightarrow> real \<Rightarrow> error + real" where
  "train_loop update_interval [] total_train_loss = Inr total_train_loss"
| "train_loop update_interval (loss # rest) total_train_loss =
     (if update_interval = 0 then Inl ZeroDivisionError
      else train_loop update_interval rest (total_train_loss + loss))"

definition train ::
  "bert \<Rightarrow> real list \<Rightarrow> int \<Rightarrow> int \<Rightarrow> (int \<times> real) list \<Rightarrow> real list \<Rightarrow>
   (error \<times> bert) + (((int \<times> real) list \<times> real list) \<times> bert)" where
  "train s losses update_interval epoch_i training_stats train_loss =
     (let s0 = s\<lparr>calls := calls s @ [TrainCall epoch_i]\<rparr>
      in (case train_loop update_interval losses 0 of
            Inl e \<Rightarrow> Inl (e, s0)
          | Inr total_train_loss \<Rightarrow>
              (if length losses = 0 then Inl (ZeroDivisionError, s0)
               else
                (let avg_train_loss = total_train_loss / real (length losses)
                 in Inr ((training_stats @ [(epoch_i, avg_train_loss)],
                          train_loss @ [avg_train_loss]), s0)))))"

subsection \<open>eval\<close>

fun eval_loop ::
  "int \<Rightarrow> batch_out list \<Rightarrow> real \<Rightarrow> real list list list \<Rightarrow> int list list \<Rightarrow>
   error + (real \<times> real list list list \<times> int list list)" where
  "eval_loop update_interval_eval [] total_val_loss ps ts = Inr (total_val_loss, ps, ts)"
| "eval_loop update_interval_eval (b # rest) total_val_loss ps ts =
     (if update_interval_eval = 0 then Inl ZeroDivisionError
      else eval_loop update_interval_eval rest (total_val_loss + b_loss b)
             (ps @ [b_logits b]) (ts @ [b_label_ids b]))"

text \<open>
  The first part of \<^verbatim>\<open>eval\<close>: the batch loop, the average of the batch losses and its
  append to \<^verbatim>\<open>val_loss\<close>, a list that the caller sees appended to.
\<close>

definition eval_pass ::
  "int \<Rightarrow> batch_out list \<Rightarrow> real list \<Rightarrow>
   error + (real list \<times> real list list list \<times> int list list)" where
  "eval_pass update_interval_eval bs val_loss =
     (case eval_loop update_interval_eval bs 0 [] [] of
        Inl e \<Rightarrow> Inl e
      | Inr (total_val_loss, ps, ts) \<Rightarrow>
          (if length bs = 0 then Inl ZeroDivisionError
           else
            (let avg_val_loss = total_val_loss / real (length bs)
             in Inr (val_loss @ [avg_val_loss], ps, ts))))"

text \<open>
  \<^verbatim>\<open>eval\<close>.  \<open>gui\<close> is \<^verbatim>\<open>good_update_interval\<close>, \<open>bs\<close> the outputs of the batches
  in order, \<open>f1\<close> the weighted F1 that scikit-learn computes from the labels and the
  predictions, \<open>now\<close> the \<^verbatim>\<open>time.strftime\<close> stamp.  \<^verbatim>\<open>best_score\<close> is a parameter
  bound to a number: the assignment \<^verbatim>\<open>best_score = f1\<close> rebinds the local name only, and
  the method returns \<^verbatim>\<open>None\<close>.  The second component of the result is the value of that
  local name when the body ends; no caller can read it.
  \<^verbatim>\<open>classification_report\<close> raises \<^verbatim>\<open>ValueError\<close> for label and prediction arrays of
  different lengths and for empty ones; the three attributes have been assigned by then.
\<close>

definition eval ::
  "bert \<Rightarrow> (int \<Rightarrow> int \<Rightarrow> int) \<Rightarrow> batch_out list \<Rightarrow> real \<Rightarrow> string \<Rightarrow> int \<Rightarrow> real list \<Rightarrow> real \<Rightarrow>
   (error \<times> bert) + ((real list \<times> real) \<times> bert)" where
  "eval s gui bs f1 now epoch_i val_loss best_score =
     (let s0 = s\<lparr>calls := calls s @ [EvalCall epoch_i best_score]\<rparr>;
          update_interval_eval = gui (int (length bs)) 10
      in (case eval_pass update_interval_eval bs val_loss of
            Inl e \<Rightarrow> Inl (e, s0)
          | Inr (val_loss', ps, ts) \<Rightarrow>
             (case np_concatenate_rows ps of
                Inl e \<Rightarrow> Inl (e, s0)
              | Inr P \<Rightarrow>
                 (case np_concatenate ts of
                    Inl e \<Rightarrow> Inl (e, s0)
                  | Inr T \<Rightarrow>
                     (let s1 = s0\<lparr>true_labels := Some T, predictions := Some P\<rparr>
                      in (case np_argmax P of
                            Inl e \<Rightarrow> Inl (e, s1)
                          | Inr pr \<Rightarrow>
                             (let s2 = s1\<lparr>preds := Some pr\<rparr>
                              in (if length T \<noteq> length pr then Inl (ValueError, s2)
                                  else if T = [] then Inl (ValueError, s2)
                                  else
                                   (let s3 = ensure_dir ''./models_BERT'' s2
                                    in (if best_score < f1
                                        then Inr ((val_loss', f1),
                                               write_file
                                                 (checkpoint_path (model_name s3) now epoch_i f1)
                                                 CheckpointState s3)
                                        else Inr ((val_loss', best_score), s3)))))))))))"

subsection \<open>fit\<close>

text \<open>
  What the collaborators outside the source files return during one \<^verbatim>\<open>fit\<close> call:
  \<^verbatim>\<open>good_update_interval\<close>, and for the epoch with index \<open>i\<close> the losses of the
  training batches, the outputs of the evaluation batches, the weighted F1 and the
  time stamp.
\<close>

record env =
  good_update_interval :: "int \<Rightarrow> int \<Rightarrow> int"
  train_out :: "int \<Rightarrow> real list"
  eval_out :: "int \<Rightarrow> batch_out list"
  eval_f1 :: "int \<Rightarrow> real"
  strftime :: "int \<Rightarrow> string"

text \<open>The local variables of \<^verbatim>\<open>fit\<close> that the epoch loop uses.\<close>

record fit_locals =
  best_score :: real
  training_stats :: "(int \<times> real) list"
  train_loss :: "real list"
  val_loss :: "real list"

text \<open>
  The loop \<^verbatim>\<open>for epoch_i in range(1, self.epochs+1)\<close> over the remaining indices.
  \<^verbatim>\<open>epoch_i % eval_interval\<close> raises for a zero interval.  The call of \<^verbatim>\<open>eval\<close> is a
  statement: nothing is assigned from it, so \<open>best_score\<close> keeps its value.
\<close>

fun epoch_loop ::
  "env \<Rightarrow> int \<Rightarrow> int \<Rightarrow> int list \<Rightarrow> fit_locals \<Rightarrow> bert \<Rightarrow> (error \<times> bert) + (fit_locals \<times> bert)" where
  "epoch_loop e update_interval eval_interval [] l s = Inr (l, s)"
| "epoch_loop e update_interval eval_interval (epoch_i # rest) l s =
     (case train s (train_out e epoch_i) update_interval epoch_i (training_stats l) (train_loss l) of
        Inl err \<Rightarrow> Inl err
      | Inr ((stats, tloss), s1) \<Rightarrow>
         (let l1 = l\<lparr>training_stats := stats, train_loss := tloss\<rparr>
          in (if eval_interval = 0 then Inl (ZeroDivisionError, s1)
              else if epoch_i mod eval_interval = 0 then
                (case eval s1 (good_update_interval e) (eval_out e epoch_i) (eval_f1 e epoch_i) (strftime e epoch_i)
                        epoch_i (val_loss l1) (best_score l1) of
                   Inl err \<Rightarrow> Inl err
                 | Inr ((vl, _), s2) \<Rightarrow>
                     epoch_loop e update_interval eval_interval rest (l1\<lparr>val_loss := vl\<rparr>) s2)
              else epoch_loop e update_interval eval_interval rest l1 s1)))"

text \<open>
  \<^verbatim>\<open>fit\<close>.  Of the training data only \<^verbatim>\<open>len(X_train)\<close> is read here; the other
  hyper-parameters are stored or handed to the optimizer.  The report reads
  \<^verbatim>\<open>self.true_labels\<close> and then \<^verbatim>\<open>self.preds\<close>, each an \<^verbatim>\<open>AttributeError\<close> when it
  was never assigned; \<^verbatim>\<open>classification_report\<close> raises \<^verbatim>\<open>ValueError\<close> for arrays of
  different lengths and for empty ones.
\<close>

definition fit ::
  "bert \<Rightarrow> env \<Rightarrow> string list \<Rightarrow> int \<Rightarrow> int \<Rightarrow> int \<Rightarrow> (error \<times> bert) + (unit \<times> bert)" where
  "fit s e X_train batch_size epochs eval_interval =
     (if batch_size = 0 then Inl (ZeroDivisionError, s)
      else
       (let batches = int (length X_train) div batch_size + 1;
            total_steps = batches * epochs;
            s0 = s\<lparr>scheduler_steps := Some total_steps\<rparr>;
            update_interval = good_update_interval e batches 5;
            l0 = \<lparr>best_score = 0, training_stats = [], train_loss = [], val_loss = []\<rparr>
        in (case epoch_loop e update_interval eval_interval [1..epochs] l0 s0 of
              Inl err \<Rightarrow> Inl err
            | Inr (l, s1) \<Rightarrow>
               (case true_labels s1 of
                  None \<Rightarrow> Inl (AttributeError, s1)
                | Some T \<Rightarrow>
                   (case preds s1 of
                      None \<Rightarrow> Inl (AttributeError, s1)
                    | Some pr \<Rightarrow>
                       (if length T \<noteq> length pr then Inl (ValueError, s1)
                        else if T = [] then Inl (ValueError, s1)
                        else
                         (let s2 = ensure_dir ''./results'' s1
                          in Inr ((), write_file
                                        (''./results/'' @ model_name s2 @ ''_epochs'' @
                                           str_int epochs @ ''_clf_report.csv'')
                                        (ClfReport T pr) s2))))))))"

subsection \<open>pred\<close>

fun pred_loop ::
  "int \<Rightarrow> real list list list \<Rightarrow> real list list list \<Rightarrow> error + real list list list" where
  "pred_loop update_interval [] ps = Inr ps"
| "pred_loop update_interval (logits # rest) ps =
     (if update_interval = 0 then Inl ZeroDivisionError
      else pred_loop update_interval rest (ps @ [logits]))"

text \<open>
  \<^verbatim>\<open>pred\<close>.  \<open>outs\<close> are the logits of the batches that \<^verbatim>\<open>make_smart_batches\<close> built
  from \<open>X\<close>, in order; \<open>today\<close> is \<^verbatim>\<open>time.strftime('%y%m%d')\<close>.  \<^verbatim>\<open>pd.DataFrame\<close>
  refuses columns of different lengths with \<^verbatim>\<open>ValueError\<close>.  Loading the weights is
  left out.
\<close>

definition pred ::
  "bert \<Rightarrow> (int \<Rightarrow> int \<Rightarrow> int) \<Rightarrow> real list list list \<Rightarrow> string list \<Rightarrow> string \<Rightarrow> string \<Rightarrow>
   (error \<times> bert) + (real list list \<times> bert)" where
  "pred s gui outs X model_type today =
     (let update_interval = gui (int (length outs)) 10
      in (case pred_loop update_interval outs [] of
            Inl e \<Rightarrow> Inl (e, s)
          | Inr ps \<Rightarrow>
             (case np_concatenate_rows ps of
                Inl e \<Rightarrow> Inl (e, s)
              | Inr P \<Rightarrow>
                 (case np_argmax P of
                    Inl e \<Rightarrow> Inl (e, s)
                  | Inr pr \<Rightarrow>
                     (if length X \<noteq> length pr then Inl (ValueError, s)
                      else
                       (let s1 = ensure_dir ''./prediction'' s
                        in Inr (P, write_file
                                     (''./prediction/'' @ model_type @ ''_'' @ today @ ''.csv'')
                                     (PredictionCsv (zip X pr)) s1)))))))"

section \<open>Notions used to state the properties\<close>


text \<open>\<open>j\<close> is the lowest position at which \<open>row\<close> takes its maximum.\<close>

definition is_argmax :: "real list \<Rightarrow> nat \<Rightarrow> bool" where
  "is_argmax row j \<longleftrightarrow>
     j < length row \<and> (\<forall>k<length row. row ! k \<le> row ! j) \<and> (\<forall>k<j. row ! k < row ! j)"

text \<open>The number of examples that a sequence of evaluation batches holds.\<close>

definition total_examples :: "batch_out list \<Rightarrow> nat" where
  "total_examples bs = sum_list (map (\<lambda>b. length (b_label_ids b)) bs)"

text \<open>
  Batch outputs on which \<^verbatim>\<open>eval\<close> does not raise: there is a batch, the update interval
  is not zero, the batches hold at least one example, every batch has one row of class
  scores per label, and the rows are non-empty and of one width.
\<close>

definition eval_ok :: "(int \<Rightarrow> int \<Rightarrow> int) \<Rightarrow> batch_out list \<Rightarrow> bool" where
  "eval_ok gui bs \<longleftrightarrow>
     bs \<noteq> [] \<and> gui (int (length bs)) 10 \<noteq> 0 \<and>
     concat (map b_label_ids bs) \<noteq> [] \<and>
     uniform_width (concat (map b_logits bs)) \<and>
     (\<forall>b\<in>set bs. length (b_logits b) = length (b_label_ids b) \<and>
                 (\<forall>row\<in>set (b_logits b). row \<noteq> []))"

text \<open>
  Modelled from the spec: \<^verbatim>\<open>make_smart_batches\<close> (utility/smart\_batch.py) is not among
  the source files.  The spec has the batch source build the batches of an evaluation
  from the texts and labels of the data set with no example dropped or duplicated, in any
  order: the labels of the batches are, taken together, those of the data set \<open>y\<close>.
\<close>

definition batches_of :: "int list \<Rightarrow> batch_out list \<Rightarrow> bool" where
  "batches_of y bs \<longleftrightarrow> mset (concat (map b_label_ids bs)) = mset y"

text \<open>
  A \<^verbatim>\<open>fit\<close> call in which nothing raises before the report: the batch size, the
  evaluation interval and the update interval are not zero, every epoch has a training
  batch, and every evaluation that falls due gets batch outputs as above.
\<close>

definition no_failure :: "env \<Rightarrow> string list \<Rightarrow> int \<Rightarrow> int \<Rightarrow> int \<Rightarrow> bool" where
  "no_failure e X_train batch_size epochs eval_interval \<longleftrightarrow>
     batch_size \<noteq> 0 \<and> eval_interval \<noteq> 0 \<and>
     good_update_interval e (int (length X_train) div batch_size + 1) 5 \<noteq> 0 \<and>
     (\<forall>i\<in>set [1..epochs].
        train_out e i \<noteq> [] \<and>
        (i mod eval_interval = 0 \<longrightarrow> eval_ok (good_update_interval e) (eval_out e i)))"

text \<open>The state in which a call ends, whether it returned or raised.\<close>

definition final_state :: "(error \<times> bert) + ('a \<times> bert) \<Rightarrow> bert" where
  "final_state r = (case r of Inl (err, s) \<Rightarrow> s | Inr (v, s) \<Rightarrow> s)"

text \<open>
  The calls of an epoch loop that trains in every epoch of \<open>js\<close> and evaluates right
  after the training of the epochs whose index is a multiple of the interval (with the
  \<^verbatim>\<open>best_score\<close> argument \<open>b\<close>); \<open>schedule\<close> is that for the epochs \<open>1, \<dots>, epochs\<close>.
  \<open>train_epochs\<close> and \<open>eval_epochs\<close> read the epochs trained and evaluated off a list of
  calls.
\<close>

definition loop_calls :: "int \<Rightarrow> real \<Rightarrow> int list \<Rightarrow> call list" where
  "loop_calls k b js =
     concat (map (\<lambda>i. TrainCall i # (if i mod k = 0 then [EvalCall i b] else [])) js)"

definition schedule :: "int \<Rightarrow> int \<Rightarrow> real \<Rightarrow> call list" where
  "schedule epochs eval_interval b = loop_calls eval_interval b [1..epochs]"

fun train_epochs :: "call list \<Rightarrow> int list" where
  "train_epochs [] = []"
| "train_epochs (TrainCall i # cs) = i # train_epochs cs"
| "train_epochs (EvalCall i b # cs) = train_epochs cs"

fun eval_epochs :: "call list \<Rightarrow> int list" where
  "eval_epochs [] = []"
| "eval_epochs (TrainCall i # cs) = eval_epochs cs"
| "eval_epochs (EvalCall i b # cs) = i # eval_epochs cs"

text \<open>
  The checkpoint files of an epoch loop that starts with the tracker at \<open>b\<close> and hands
  that same value to every evaluation.
\<close>

definition loop_checkpoints ::
  "env \<Rightarrow> string \<Rightarrow> int \<Rightarrow> real \<Rightarrow> int list \<Rightarrow> (string \<times> file_content) list" where
  "loop_checkpoints e name k b js =
     concat (map (\<lambda>i. if i mod k = 0 \<and> b < eval_f1 e i
                       then [(checkpoint_path name (strftime e i) i (eval_f1 e i), CheckpointState)]
                       else []) js)"

text \<open>
  The weighted F1 of scikit-learn
  (\<^verbatim>\<open>precision_recall_fscore_support(T, P, average='weighted')\<close>) for a non-empty list of
  labels: the F1 of every class, 0 where it is undefined, weighted by the number of labels
  of the class.  \<^verbatim>\<open>eval\<close> takes the score as an argument; this definition serves only to
  check that the scores of the example run are those of its predictions.
\<close>

definition f1_class :: "int list \<Rightarrow> int list \<Rightarrow> int \<Rightarrow> real" where
  "f1_class T P c =
     (let tp = real (length (filter (\<lambda>(t, p). t = c \<and> p = c) (zip T P)));
          predicted = real (length (filter (\<lambda>p. p = c) P));
          support = real (length (filter (\<lambda>t. t = c) T));
          precision = (if predicted = 0 then 0 else tp / predicted);
          recall = (if support = 0 then 0 else tp / support)
      in if precision + recall = 0 then 0
         else 2 * precision * recall / (precision + recall))"

definition weighted_f1 :: "int list \<Rightarrow> nat list \<Rightarrow> real" where
  "weighted_f1 T pr =
     (let P = map int pr
      in sum_list (map (\<lambda>c. real (length (filter (\<lambda>t. t = c) T)) * f1_class T P c)
                    (remdups (T @ P))) / real (length T))"

text \<open>The number of batches that \<open>n\<close> examples fill: \<open>n / batch_size\<close> rounded up.\<close>

definition ceil_batches :: "nat \<Rightarrow> int \<Rightarrow> int" where
  "ceil_batches n batch_size = \<lceil>real n / real_of_int batch_size\<rceil>"

section \<open>Example inputs\<close>

text \<open>A frame of three rows; the second cell of the column \<^verbatim>\<open>framenet_answer\<close> is missing.\<close>

definition demo_frame :: "(string, nat) dataframe" where
  "demo_frame =
     \<lparr>n_rows = 3, text_col = Some [''a'', ''b'', ''c''],
      predicate_answer = Some [Label 7, Label 3, Label 7],
      framenet_answer = Some [Label 2, NaN, Label 1]\<rparr>"

text \<open>
  Three held-out examples with the labels 1, 0, 1, in batches of two and one.  With the
  outputs \<open>demo_batches_first\<close> every prediction is right (weighted F1 1); with
  \<open>demo_batches\<close> the last one is wrong (weighted F1 2/3) and the second row is a tie.
  In the example run the first evaluation sees the former and the later ones the latter.
\<close>

definition demo_batches_first :: "batch_out list" where
  "demo_batches_first =
     [\<lparr>b_loss = 1 / 4, b_logits = [[1, 3], [3, 2]], b_label_ids = [1, 0]\<rparr>,
      \<lparr>b_loss = 1 / 4, b_logits = [[4, 5]], b_label_ids = [1]\<rparr>]"

definition demo_batches :: "batch_out list" where
  "demo_batches =
     [\<lparr>b_loss = 1 / 2, b_logits = [[1, 3], [2, 2]], b_label_ids = [1, 0]\<rparr>,
      \<lparr>b_loss = 1 / 4, b_logits = [[5, 4]], b_label_ids = [1]\<rparr>]"

text \<open>Two held-out examples with the labels 0, 1 in one batch of two.\<close>

definition demo_batches_even :: "batch_out list" where
  "demo_batches_even =
     [\<lparr>b_loss = 1 / 2, b_logits = [[1, 3], [2, 2]], b_label_ids = [1, 0]\<rparr>]"

definition demo_env :: env where
  "demo_env =
     \<lparr>good_update_interval = (\<lambda>total_iters num_desired_updates. 1),
      train_out = (\<lambda>i. [3 / 4, 1 / 4]),
      eval_out = (\<lambda>i. if i = 1 then demo_batches_first else demo_batches),
      eval_f1 = (\<lambda>i. if i = 1 then 1 else 2 / 3),
      strftime = (\<lambda>i. ''11_04_07_34'')\<rparr>"

definition demo_X :: "string list" where
  "demo_X = replicate 100 ''x''"

text \<open>The object after \<^verbatim>\<open>fit\<close> with 2 epochs and an evaluation in each, from a new object.\<close>

definition demo_fitted :: bert where
  "demo_fitted =
     \<lparr>model_name = ''bert'', scheduler_steps = Some 14, true_labels = Some [1, 0, 1],
      predictions = Some [[1, 3], [2, 2], [5, 4]], preds = Some [1, 0, 0],
      dirs = [''./models_BERT'', ''./results''],
      files = [(''./models_BERT/bert_11_04_07_34_EPOCH_1_F1_1.0.pth'', CheckpointState),
               (''./models_BERT/bert_11_04_07_34_EPOCH_2_F1_0.6667.pth'', CheckpointState),
               (''./results/bert_epochs2_clf_report.csv'', ClfReport [1, 0, 1] [1, 0, 0])],
      calls = [TrainCall 1, EvalCall 1 0, TrainCall 2, EvalCall 2 0]\<rparr>"

section \<open>Properties of the loaders\<close>


lemma lower_FrameNet: "lower ''FrameNet'' = ''framenet''"
  by code_simp


lemma lower_char_idem: "lower_char (lower_char c) = lower_char c"
  by (simp add: lower_char_def Let_def)

lemma lower_idem: "lower (lower s) = lower s"
  by (simp add: lower_def lower_char_idem)










text \<open>
  C10: for every \<open>label_type\<close> whose lower-case form is \<^verbatim>\<open>'predicate'\<close> or \<^verbatim>\<open>'framenet'\<close>,
  \<^verbatim>\<open>load_bert_data\<close> and \<^verbatim>\<open>load_csv_dataset\<close> behave as they do on the lower-case value,
  neither raises the \<^verbatim>\<open>LABEL_TYPE\<close> exception, and on a frame with the three columns both
  return a result.
\<close>

theorem label_type_case_insensitive:
  assumes "lower label_type = ''predicate'' \<or> lower label_type = ''framenet''"
  shows "load_bert_data df label_type = load_bert_data df (lower label_type) \<and>
         load_csv_dataset df label_type = load_csv_dataset df (lower label_type) \<and>
         load_bert_data df label_type \<noteq> Inl (Exception LABEL_TYPE_msg) \<and>
         load_csv_dataset df label_type \<noteq> Inl (Exception LABEL_TYPE_msg) \<and>
         (text_col df \<noteq> None \<and> predicate_answer df \<noteq> None \<and> framenet_answer df \<noteq> None \<longrightarrow>
            (\<exists>r. load_bert_data df label_type = Inr r) \<and>
            (\<exists>r. load_csv_dataset df label_type = Inr r))"
proof -
  have i: "lower (lower label_type) = lower label_type"
    by (rule lower_idem)
  have b: "load_bert_data df label_type = load_bert_data df (lower label_type)"
    by (simp only: load_bert_data_def i)
  have c: "load_csv_dataset df label_type = load_csv_dataset df (lower label_type)"
    by (simp only: load_csv_dataset_def i)
  have nb: "load_bert_data df label_type \<noteq> Inl (Exception LABEL_TYPE_msg)"
    using assms by (auto simp: load_bert_data_def split: option.splits)
  have nc: "load_csv_dataset df label_type \<noteq> Inl (Exception LABEL_TYPE_msg)"
    using assms by (auto simp: load_csv_dataset_def iter_rows_def split: option.splits)
  have ok: "(\<exists>r. load_bert_data df label_type = Inr r) \<and>
            (\<exists>r. load_csv_dataset df label_type = Inr r)"
    if "text_col df \<noteq> None \<and> predicate_answer df \<noteq> None \<and> framenet_answer df \<noteq> None"
    using assms that by (auto simp: load_bert_data_def load_csv_dataset_def iter_rows_def)
  from b c nb nc ok show ?thesis by blast
qed

text \<open>Witness for C10: \<^verbatim>\<open>'FrameNet'\<close> on the example frame.\<close>

theorem label_type_case_insensitive_witness:
  "load_bert_data demo_frame ''FrameNet'' = load_bert_data demo_frame ''framenet'' \<and>
   load_csv_dataset demo_frame ''FrameNet'' = load_csv_dataset demo_frame ''framenet'' \<and>
   (\<exists>r. load_bert_data demo_frame ''FrameNet'' = Inr r) \<and>
   (\<exists>r. load_csv_dataset demo_frame ''FrameNet'' = Inr r)"
proof -
  have c: "text_col demo_frame \<noteq> None \<and> predicate_answer demo_frame \<noteq> None \<and>
           framenet_answer demo_frame \<noteq> None"
    by (simp add: demo_frame_def)
  have f: "lower ''FrameNet'' = ''predicate'' \<or> lower ''FrameNet'' = ''framenet''"
    by (simp only: lower_FrameNet) simp
  note t = label_type_case_insensitive [OF f, of demo_frame, unfolded lower_FrameNet]
  from t c show ?thesis
    by blast
qed

section \<open>Properties of the classifier\<close>

subsection \<open>argmax\<close>

lemma argmax_from_spec:
  assumes "mi < i" "mi < length pre" "length pre = i" "pre ! mi = mp"
    "\<forall>k<length pre. pre ! k \<le> mp" "\<forall>k<mi. pre ! k < mp"
  shows "is_argmax (pre @ xs) (argmax_from mp mi i xs)"
  using assms
proof (induction xs arbitrary: mp mi i pre)
  case Nil
  then show ?case by (simp add: is_argmax_def)
next
  case (Cons x xs)
  show ?case
  proof (cases "mp < x")
    case True
    have "is_argmax ((pre @ [x]) @ xs) (argmax_from x i (Suc i) xs)"
    proof (rule Cons.IH)
      show "i < Suc i" by simp
      show "i < length (pre @ [x])" using Cons.prems by simp
      show "length (pre @ [x]) = Suc i" using Cons.prems by simp
      show "(pre @ [x]) ! i = x" using Cons.prems by (simp add: nth_append)
      have a: "pre ! k \<le> x" if "k < length pre" for k
      proof -
        from that Cons.prems(5) have "pre ! k \<le> mp" by simp
        with True show ?thesis by simp
      qed
      show "\<forall>k<length (pre @ [x]). (pre @ [x]) ! k \<le> x"
        using a by (simp add: nth_append less_Suc_eq)
      have b: "pre ! k < x" if "k < length pre" for k
      proof -
        from that Cons.prems(5) have "pre ! k \<le> mp" by simp
        with True show ?thesis by simp
      qed
      show "\<forall>k<i. (pre @ [x]) ! k < x"
        using b Cons.prems(3) by (simp add: nth_append)
    qed
    with True show ?thesis by simp
  next
    case False
    have "is_argmax ((pre @ [x]) @ xs) (argmax_from mp mi (Suc i) xs)"
    proof (rule Cons.IH)
      show "mi < Suc i" using Cons.prems by simp
      show "mi < length (pre @ [x])" using Cons.prems by simp
      show "length (pre @ [x]) = Suc i" using Cons.prems by simp
      show "(pre @ [x]) ! mi = mp" using Cons.prems by (simp add: nth_append)
      show "\<forall>k<length (pre @ [x]). (pre @ [x]) ! k \<le> mp"
        using Cons.prems False by (auto simp: nth_append less_Suc_eq)
      show "\<forall>k<mi. (pre @ [x]) ! k < mp"
        using Cons.prems by (auto simp: nth_append)
    qed
    with False show ?thesis by simp
  qed
qed

lemma argmax_is_argmax: "argmax row = Inr j \<Longrightarrow> is_argmax row j"
proof (cases row)
  case Nil
  assume "argmax row = Inr j"
  with Nil show ?thesis by (simp add: argmax_def)
next
  case (Cons x xs)
  assume "argmax row = Inr j"
  with Cons have j: "j = argmax_from x 0 1 xs" by (simp add: argmax_def)
  have "is_argmax ([x] @ xs) (argmax_from x 0 1 xs)"
    by (rule argmax_from_spec) simp_all
  with j Cons show ?thesis by simp
qed

lemma argmax_nonempty: "row \<noteq> [] \<Longrightarrow> \<exists>j. argmax row = Inr j"
  by (cases row) (simp_all add: argmax_def)

lemma np_argmax_total:
  "\<forall>row\<in>set P. row \<noteq> [] \<Longrightarrow>
     \<exists>pr. np_argmax P = Inr pr \<and> length pr = length P \<and> (\<forall>i<length P. is_argmax (P ! i) (pr ! i))"
proof (induction P)
  case Nil
  then show ?case by simp
next
  case (Cons row P)
  from Cons.prems obtain j where j: "argmax row = Inr j"
    using argmax_nonempty [of row] by auto
  from Cons obtain pr where pr: "np_argmax P = Inr pr" "length pr = length P"
    "\<forall>i<length P. is_argmax (P ! i) (pr ! i)" by auto
  have "\<forall>i<length (row # P). is_argmax ((row # P) ! i) ((j # pr) ! i)"
    using pr(3) argmax_is_argmax [OF j] by (auto simp: nth_Cons split: nat.splits)
  with j pr show ?case by simp
qed

lemma is_argmax_unique: "is_argmax row j \<Longrightarrow> is_argmax row k \<Longrightarrow> j = k"
  unfolding is_argmax_def
  by (metis linorder_neqE_nat not_less)

subsection \<open>train\<close>

lemma train_loop_sum:
  "update_interval \<noteq> 0 \<Longrightarrow> train_loop update_interval losses t = Inr (t + sum_list losses)"
  by (induction losses arbitrary: t) (simp_all add: add.assoc)

lemma train_returns:
  assumes "update_interval \<noteq> 0" "losses \<noteq> []"
  shows "train s losses update_interval epoch_i stats tloss =
         Inr ((stats @ [(epoch_i, sum_list losses / real (length losses))],
               tloss @ [sum_list losses / real (length losses)]),
              s\<lparr>calls := calls s @ [TrainCall epoch_i]\<rparr>)"
  using assms by (simp add: train_def train_loop_sum Let_def)

lemma train_state:
  "final_state (train s losses update_interval epoch_i stats tloss) =
     s\<lparr>calls := calls s @ [TrainCall epoch_i]\<rparr>"
  by (simp add: train_def final_state_def Let_def split: sum.splits)

subsection \<open>eval\<close>

lemma eval_loop_acc:
  "ui \<noteq> 0 \<Longrightarrow>
   eval_loop ui bs t ps ts =
     Inr (t + sum_list (map b_loss bs), ps @ map b_logits bs, ts @ map b_label_ids bs)"
  by (induction bs arbitrary: t ps ts) (simp_all add: add.assoc)

lemma length_concat_logits:
  "\<forall>b\<in>set bs. length (b_logits b) = length (b_label_ids b) \<Longrightarrow>
   length (concat (map b_logits bs)) = total_examples bs \<and>
   length (concat (map b_label_ids bs)) = total_examples bs"
  by (induction bs) (simp_all add: total_examples_def)

lemma eval_pass_returns:
  assumes "bs \<noteq> []" "ui \<noteq> 0"
  shows "eval_pass ui bs vl =
           Inr (vl @ [sum_list (map b_loss bs) / real (length bs)],
                map b_logits bs, map b_label_ids bs)"
  using assms by (simp add: eval_pass_def eval_loop_acc Let_def)

lemma eval_returns:
  assumes "eval_ok gui bs"
  shows "\<exists>pr. np_argmax (concat (map b_logits bs)) = Inr pr \<and>
           length pr = total_examples bs \<and>
           (\<forall>i<total_examples bs. is_argmax (concat (map b_logits bs) ! i) (pr ! i)) \<and>
           eval s gui bs f1 now epoch_i vl b =
             (let s3 = ensure_dir ''./models_BERT''
                         (s\<lparr>calls := calls s @ [EvalCall epoch_i b],
                            true_labels := Some (concat (map b_label_ids bs)),
                            predictions := Some (concat (map b_logits bs)),
                            preds := Some pr\<rparr>);
                  vl' = vl @ [sum_list (map b_loss bs) / real (length bs)]
              in if b < f1
                 then Inr ((vl', f1),
                        write_file (checkpoint_path (model_name s) now epoch_i f1) CheckpointState s3)
                 else Inr ((vl', b), s3))"
proof -
  from assms have ne: "bs \<noteq> []" and ui: "gui (int (length bs)) 10 \<noteq> 0"
    and al: "\<forall>b\<in>set bs. length (b_logits b) = length (b_label_ids b)"
    and rows: "\<forall>row\<in>set (concat (map b_logits bs)). row \<noteq> []"
    and ex: "concat (map b_label_ids bs) \<noteq> []"
    and uw: "uniform_width (concat (map b_logits bs))"
    by (auto simp: eval_ok_def)
  note len = length_concat_logits [OF al]
  from np_argmax_total [OF rows] obtain pr where
    pr: "np_argmax (concat (map b_logits bs)) = Inr pr"
      "length pr = length (concat (map b_logits bs))"
      "\<forall>i<length (concat (map b_logits bs)). is_argmax (concat (map b_logits bs) ! i) (pr ! i)"
    by blast
  have "eval s gui bs f1 now epoch_i vl b =
             (let s3 = ensure_dir ''./models_BERT''
                         (s\<lparr>calls := calls s @ [EvalCall epoch_i b],
                            true_labels := Some (concat (map b_label_ids bs)),
                            predictions := Some (concat (map b_logits bs)),
                            preds := Some pr\<rparr>);
                  vl' = vl @ [sum_list (map b_loss bs) / real (length bs)]
              in if b < f1
                 then Inr ((vl', f1),
                        write_file (checkpoint_path (model_name s) now epoch_i f1) CheckpointState s3)
                 else Inr ((vl', b), s3))"
    using ne ui pr(1,2) len ex uw
    by (simp add: eval_def eval_pass_returns np_concatenate_def np_concatenate_rows_def
        Let_def ensure_dir_def)
  with pr len show ?thesis by auto
qed


lemma eval_step:
  assumes "eval_ok gui bs"
  shows "\<exists>vl' b' s'. eval s gui bs f1 now epoch_i vl b = Inr ((vl', b'), s') \<and>
           calls s' = calls s @ [EvalCall epoch_i b] \<and>
           model_name s' = model_name s \<and>
           files s' = files s @ (if b < f1
                                 then [(checkpoint_path (model_name s) now epoch_i f1, CheckpointState)]
                                 else [])"
proof -
  from eval_returns [OF assms, of s f1 now epoch_i vl b]
  obtain pr where
    "eval s gui bs f1 now epoch_i vl b =
             (let s3 = ensure_dir ''./models_BERT''
                         (s\<lparr>calls := calls s @ [EvalCall epoch_i b],
                            true_labels := Some (concat (map b_label_ids bs)),
                            predictions := Some (concat (map b_logits bs)),
                            preds := Some pr\<rparr>);
                  vl' = vl @ [sum_list (map b_loss bs) / real (length bs)]
              in if b < f1
                 then Inr ((vl', f1),
                        write_file (checkpoint_path (model_name s) now epoch_i f1) CheckpointState s3)
                 else Inr ((vl', b), s3))"
    by blast
  then show ?thesis
    by (simp add: Let_def ensure_dir_def write_file_def)
qed

text \<open>
  On batches that hold no example \<^verbatim>\<open>eval\<close> raises at the classification report, with the
  three attributes assigned and no directory made.
\<close>

lemma eval_no_examples_raises:
  assumes "bs \<noteq> []" "gui (int (length bs)) 10 \<noteq> 0"
    and "concat (map b_logits bs) = []" "concat (map b_label_ids bs) = []"
  shows "eval s gui bs f1 now epoch_i vl b =
           Inl (ValueError,
                s\<lparr>calls := calls s @ [EvalCall epoch_i b], true_labels := Some [],
                  predictions := Some [], preds := Some []\<rparr>)"
  using assms
  by (simp add: eval_def eval_pass_returns np_concatenate_def np_concatenate_rows_def
      uniform_width_def Let_def del: concat_eq_Nil_conv)

subsection \<open>The epoch loop\<close>

lemma epoch_loop_returns:
  assumes "update_interval \<noteq> 0" "k \<noteq> 0"
    "\<forall>i\<in>set js. train_out e i \<noteq> [] \<and>
                 (i mod k = 0 \<longrightarrow> eval_ok (good_update_interval e) (eval_out e i))"
  shows "\<exists>l' s'. epoch_loop e update_interval k js l s = Inr (l', s') \<and>
           best_score l' = best_score l \<and>
           model_name s' = model_name s \<and>
           calls s' = calls s @ loop_calls k (best_score l) js \<and>
           files s' = files s @ loop_checkpoints e (model_name s) k (best_score l) js"
  using assms(3)
proof (induction js arbitrary: l s)
  case Nil
  then show ?case by (simp add: loop_calls_def loop_checkpoints_def)
next
  case (Cons i js)
  from Cons.prems have tr: "train_out e i \<noteq> []" by simp
  let ?avg = "sum_list (train_out e i) / real (length (train_out e i))"
  let ?s1 = "s\<lparr>calls := calls s @ [TrainCall i]\<rparr>"
  let ?l1 = "l\<lparr>training_stats := training_stats l @ [(i, ?avg)], train_loss := train_loss l @ [?avg]\<rparr>"
  note t = train_returns [OF assms(1) tr, of s i "training_stats l" "train_loss l"]
  from Cons.prems have rest: "\<forall>i\<in>set js. train_out e i \<noteq> [] \<and>
                 (i mod k = 0 \<longrightarrow> eval_ok (good_update_interval e) (eval_out e i))" by simp
  show ?case
  proof (cases "i mod k = 0")
    case True
    with Cons.prems have ok: "eval_ok (good_update_interval e) (eval_out e i)" by simp
    from eval_step [OF ok, of ?s1 "eval_f1 e i" "strftime e i" i "val_loss ?l1" "best_score ?l1"]
    obtain vl' b' s2 where
      ev: "eval ?s1 (good_update_interval e) (eval_out e i) (eval_f1 e i) (strftime e i) i
             (val_loss ?l1) (best_score ?l1) = Inr ((vl', b'), s2)"
      and c2: "calls s2 = calls ?s1 @ [EvalCall i (best_score ?l1)]"
      and m2: "model_name s2 = model_name ?s1"
      and f2: "files s2 = files ?s1 @
                 (if best_score ?l1 < eval_f1 e i
                  then [(checkpoint_path (model_name ?s1) (strftime e i) i (eval_f1 e i), CheckpointState)]
                  else [])"
      by blast
    from Cons.IH [OF rest, of "?l1\<lparr>val_loss := vl'\<rparr>" s2]
    obtain l' s' where
      r: "epoch_loop e update_interval k js (?l1\<lparr>val_loss := vl'\<rparr>) s2 = Inr (l', s')"
      and r2: "best_score l' = best_score l" "model_name s' = model_name s2"
        "calls s' = calls s2 @ loop_calls k (best_score l) js"
        "files s' = files s2 @ loop_checkpoints e (model_name s2) k (best_score l) js"
      by auto
    have "epoch_loop e update_interval k (i # js) l s = Inr (l', s')"
      using t ev r True assms(2) by (simp add: Let_def)
    moreover have "calls s' = calls s @ loop_calls k (best_score l) (i # js)"
      using r2 c2 True by (simp add: loop_calls_def)
    moreover have "files s' = files s @ loop_checkpoints e (model_name s) k (best_score l) (i # js)"
      using r2 f2 m2 True by (simp add: loop_checkpoints_def)
    ultimately show ?thesis using r2 m2 by simp
  next
    case False
    from Cons.IH [OF rest, of ?l1 ?s1]
    obtain l' s' where
      r: "epoch_loop e update_interval k js ?l1 ?s1 = Inr (l', s')"
      and r2: "best_score l' = best_score l" "model_name s' = model_name s"
        "calls s' = calls ?s1 @ loop_calls k (best_score l) js"
        "files s' = files s @ loop_checkpoints e (model_name s) k (best_score l) js"
      by auto
    have "epoch_loop e update_interval k (i # js) l s = Inr (l', s')"
      using t r False assms(2) by (simp add: Let_def)
    moreover have "calls s' = calls s @ loop_calls k (best_score l) (i # js)"
      using r2 False by (simp add: loop_calls_def)
    moreover have "files s' = files s @ loop_checkpoints e (model_name s) k (best_score l) (i # js)"
      using r2 False by (simp add: loop_checkpoints_def)
    ultimately show ?thesis using r2 by simp
  qed
qed

lemma epoch_loop_best_score:
  "epoch_loop e update_interval k js l s = Inr (l', s') \<Longrightarrow> best_score l' = best_score l"
proof (induction js arbitrary: l s)
  case Nil
  then show ?case by simp
next
  case (Cons i js)
  then show ?case
    by (auto simp: Let_def split: sum.splits prod.splits if_splits)
qed

lemma eval_scheduler_steps:
  "scheduler_steps (final_state (eval s gui bs f1 now epoch_i vl b)) = scheduler_steps s"
  by (simp add: eval_def final_state_def Let_def ensure_dir_def write_file_def
      split: sum.splits prod.splits)

lemma train_scheduler_steps:
  "scheduler_steps (final_state (train s losses ui epoch_i stats tloss)) = scheduler_steps s"
  by (simp add: train_state)

lemma epoch_loop_scheduler_steps:
  "scheduler_steps (final_state (epoch_loop e update_interval k js l s)) = scheduler_steps s"
proof (induction js arbitrary: l s)
  case Nil
  then show ?case by (simp add: final_state_def)
next
  case (Cons i js)
  let ?t = "train s (train_out e i) update_interval i (training_stats l) (train_loss l)"
  show ?case
  proof (cases ?t)
    case (Inl a)
    with train_scheduler_steps [of s "train_out e i" update_interval i "training_stats l" "train_loss l"]
    show ?thesis by (simp add: final_state_def split: prod.splits)
  next
    case (Inr r)
    then obtain stats tloss s1 where r: "?t = Inr ((stats, tloss), s1)"
      by (cases r) auto
    with train_scheduler_steps [of s "train_out e i" update_interval i "training_stats l" "train_loss l"]
    have s1: "scheduler_steps s1 = scheduler_steps s" by (simp add: final_state_def)
    let ?l1 = "l\<lparr>training_stats := stats, train_loss := tloss\<rparr>"
    let ?ev = "eval s1 (good_update_interval e) (eval_out e i) (eval_f1 e i) (strftime e i) i
                 (val_loss ?l1) (best_score ?l1)"
    show ?thesis
    proof (cases "k = 0")
      case True
      with r s1 show ?thesis by (simp add: final_state_def)
    next
      case k: False
      show ?thesis
      proof (cases "i mod k = 0")
        case False
        with r k s1 Cons.IH [of ?l1 s1] show ?thesis by (simp add: Let_def)
      next
        case True
        show ?thesis
        proof (cases ?ev)
          case (Inl a)
          with eval_scheduler_steps [of s1 "good_update_interval e" "eval_out e i" "eval_f1 e i"
              "strftime e i" i "val_loss ?l1" "best_score ?l1"] r k True s1
          show ?thesis by (simp add: final_state_def Let_def split: prod.splits)
        next
          case (Inr q)
          then obtain vl b' s2 where q: "?ev = Inr ((vl, b'), s2)" by (cases q) auto
          with eval_scheduler_steps [of s1 "good_update_interval e" "eval_out e i" "eval_f1 e i"
              "strftime e i" i "val_loss ?l1" "best_score ?l1"]
          have s2: "scheduler_steps s2 = scheduler_steps s1" by (simp add: final_state_def)
          from r k True q s1 s2 Cons.IH [of "?l1\<lparr>val_loss := vl\<rparr>" s2]
          show ?thesis by (simp add: Let_def)
        qed
      qed
    qed
  qed
qed

lemma epoch_loop_no_eval:
  assumes "update_interval \<noteq> 0" "k \<noteq> 0" "\<forall>i\<in>set js. train_out e i \<noteq> [] \<and> i mod k \<noteq> 0"
  shows "\<exists>l'. epoch_loop e update_interval k js l s =
                Inr (l', s\<lparr>calls := calls s @ map TrainCall js\<rparr>)"
  using assms(3)
proof (induction js arbitrary: l s)
  case Nil
  then show ?case by simp
next
  case (Cons i js)
  from Cons.prems have tr: "train_out e i \<noteq> []" and nd: "i mod k \<noteq> 0"
    and rest: "\<forall>i\<in>set js. train_out e i \<noteq> [] \<and> i mod k \<noteq> 0"
    by simp_all
  note t = train_returns [OF assms(1) tr, of s i "training_stats l" "train_loss l"]
  let ?avg = "sum_list (train_out e i) / real (length (train_out e i))"
  let ?l1 = "l\<lparr>training_stats := training_stats l @ [(i, ?avg)],
               train_loss := train_loss l @ [?avg]\<rparr>"
  from Cons.IH [OF rest, of ?l1 "s\<lparr>calls := calls s @ [TrainCall i]\<rparr>"]
  obtain l' where
    "epoch_loop e update_interval k js ?l1 (s\<lparr>calls := calls s @ [TrainCall i]\<rparr>) =
       Inr (l', s\<lparr>calls := calls s @ [TrainCall i] @ map TrainCall js\<rparr>)"
    by auto
  with t nd assms(2) show ?case by (simp add: Let_def)
qed

subsection \<open>pred\<close>

lemma pred_loop_acc:
  "update_interval \<noteq> 0 \<Longrightarrow> pred_loop update_interval outs ps = Inr (ps @ outs)"
  by (induction outs arbitrary: ps) simp_all

lemma np_argmax_length: "np_argmax P = Inr pr \<Longrightarrow> length pr = length P"
  by (induction P arbitrary: pr) (auto split: sum.splits)

lemma pred_empty_raises_no_batches:
  "pred s gui [] X model_type today = Inl (ValueError, s)"
  by (simp add: pred_def np_concatenate_rows_def)

subsection \<open>The loop of a call that does not fail, and the example run\<close>

lemma upto_1_2: "[1..2] = [1, 2 :: int]"
  by (simp add: upto.simps)

lemma upto_1_3: "[1..3] = [1, 2, 3 :: int]"
  by (simp add: upto.simps)

lemma eval_ok_demo: "eval_ok (\<lambda>total_iters num_desired_updates. 1) demo_batches"
  by (simp add: eval_ok_def demo_batches_def uniform_width_def)

lemma eval_ok_demo_first: "eval_ok (\<lambda>total_iters num_desired_updates. 1) demo_batches_first"
  by (simp add: eval_ok_def demo_batches_first_def uniform_width_def)

lemma no_failure_demo_2_1: "no_failure demo_env demo_X 16 2 1"
  using eval_ok_demo eval_ok_demo_first by (simp add: no_failure_def demo_env_def upto_1_2)

lemma demo_f1_values:
  "weighted_f1 [1, 0, 1] [1, 0, 1] = eval_f1 demo_env 1"
  "weighted_f1 [1, 0, 1] [1, 0, 0] = eval_f1 demo_env 2"
  by (simp_all add: weighted_f1_def f1_class_def demo_env_def Let_def)

lemma no_failure_demo_3_5: "no_failure demo_env demo_X 16 3 5"
  by (simp add: no_failure_def demo_env_def upto_1_3)

lemma fit_loop_returns:
  assumes "no_failure e X_train batch_size epochs k"
  shows "\<exists>l' s'. epoch_loop e (good_update_interval e (int (length X_train) div batch_size + 1) 5)
                    k [1..epochs]
                    \<lparr>best_score = 0, training_stats = [], train_loss = [], val_loss = []\<rparr>
                    (s\<lparr>scheduler_steps := Some ((int (length X_train) div batch_size + 1) * epochs)\<rparr>)
                  = Inr (l', s') \<and>
           best_score l' = 0 \<and> model_name s' = model_name s \<and>
           calls s' = calls s @ schedule epochs k 0 \<and>
           files s' = files s @ loop_checkpoints e (model_name s) k 0 [1..epochs]"
proof -
  from assms have u: "good_update_interval e (int (length X_train) div batch_size + 1) 5 \<noteq> 0"
    and k: "k \<noteq> 0"
    and a: "\<forall>i\<in>set [1..epochs]. train_out e i \<noteq> [] \<and>
              (i mod k = 0 \<longrightarrow> eval_ok (good_update_interval e) (eval_out e i))"
    by (simp_all add: no_failure_def)
  from epoch_loop_returns [OF u k a,
      of "\<lparr>best_score = 0, training_stats = [], train_loss = [], val_loss = []\<rparr>"
         "s\<lparr>scheduler_steps := Some ((int (length X_train) div batch_size + 1) * epochs)\<rparr>"]
  show ?thesis by (simp add: schedule_def)
qed

lemma digit_char_values:
  "digit_char 0 = CHR ''0''" "digit_char 1 = CHR ''1''" "digit_char (Suc 0) = CHR ''1''"
  "digit_char 2 = CHR ''2''" "digit_char 6 = CHR ''6''" "digit_char 7 = CHR ''7''"
  by code_simp+

lemma rint_numeral: "rint (numeral n) = numeral n"
  by (simp add: rint_def)

lemma str_nat_digit: "n < 10 \<Longrightarrow> str_nat n = [digit_char n]"
  by (simp add: str_nat.simps)

lemma rint_two_thirds: "rint (2 / 3 * 10000) = 6667"
  by (simp add: rint_def Let_def)

lemma strip_zeros_values:
  "strip_zeros [0, 0, 0, 0] = [0]" "strip_zeros [6, 6, 6, 7] = [6, 6, 6, 7]"
  by (simp_all add: strip_zeros_def)

lemma str_round4_values: "str_round4 1 = ''1.0''" "str_round4 (2 / 3) = ''0.6667''"
proof -
  show "str_round4 1 = ''1.0''"
    by (simp add: str_round4_def rint_numeral Let_def str_nat_digit strip_zeros_values
        digit_char_values)
  have "str_round4 (2 / 3) =
          str_nat 0 @ ''.'' @ map digit_char (strip_zeros [6, 6, 6, 7])"
    unfolding str_round4_def rint_two_thirds by (simp add: Let_def)
  then show "str_round4 (2 / 3) = ''0.6667''"
    by (simp add: str_nat_digit strip_zeros_values digit_char_values)
qed

lemma checkpoint_path_values:
  "checkpoint_path ''bert'' ''11_04_07_34'' 1 1 =
     ''./models_BERT/bert_11_04_07_34_EPOCH_1_F1_1.0.pth''"
  "checkpoint_path ''bert'' ''11_04_07_34'' 2 (2 / 3) =
     ''./models_BERT/bert_11_04_07_34_EPOCH_2_F1_0.6667.pth''"
  by (simp_all add: checkpoint_path_def os_path_join_def str_round4_values str_int_def
      str_nat_digit digit_char_values)

lemma train_demo:
  "train s [3 / 4, 1 / 4] 1 i stats tloss =
     Inr ((stats @ [(i, 1 / 2)], tloss @ [1 / 2]), s\<lparr>calls := calls s @ [TrainCall i]\<rparr>)"
  by (simp add: train_def Let_def)

lemma np_argmax_demo: "np_argmax [[1, 3], [2, 2], [5, 4]] = Inr [1, 0, 0]"
  by (simp add: argmax_def)

lemma eval_demo:
  "eval s (\<lambda>total_iters num_desired_updates. 1) demo_batches f1 now i vl b =
     (let s3 = ensure_dir ''./models_BERT''
                 (s\<lparr>calls := calls s @ [EvalCall i b], true_labels := Some [1, 0, 1],
                    predictions := Some [[1, 3], [2, 2], [5, 4]], preds := Some [1, 0, 0]\<rparr>)
      in if b < f1
         then Inr ((vl @ [3 / 8], f1),
                write_file (checkpoint_path (model_name s) now i f1) CheckpointState s3)
         else Inr ((vl @ [3 / 8], b), s3))"
proof -
  have c: "concat (map b_logits demo_batches) = [[1, 3], [2, 2], [5, 4]]"
    "concat (map b_label_ids demo_batches) = [1, 0, 1]"
    "sum_list (map b_loss demo_batches) / real (length demo_batches) = 3 / 8"
    by (simp_all add: demo_batches_def)
  from eval_returns [OF eval_ok_demo, of s f1 now i vl b]
  obtain pr where p: "np_argmax (concat (map b_logits demo_batches)) = Inr pr"
    and e: "eval s (\<lambda>total_iters num_desired_updates. 1) demo_batches f1 now i vl b =
             (let s3 = ensure_dir ''./models_BERT''
                         (s\<lparr>calls := calls s @ [EvalCall i b],
                            true_labels := Some (concat (map b_label_ids demo_batches)),
                            predictions := Some (concat (map b_logits demo_batches)),
                            preds := Some pr\<rparr>);
                  vl' = vl @ [sum_list (map b_loss demo_batches) / real (length demo_batches)]
              in if b < f1
                 then Inr ((vl', f1),
                        write_file (checkpoint_path (model_name s) now i f1) CheckpointState s3)
                 else Inr ((vl', b), s3))"
    by blast
  from p have "pr = [1, 0, 0]"
    unfolding c np_argmax_demo by simp
  with e show ?thesis
    unfolding c by (simp add: Let_def)
qed

lemma np_argmax_demo_first: "np_argmax [[1, 3], [3, 2], [4, 5]] = Inr [1, 0, 1]"
  by (simp add: argmax_def)

lemma eval_demo_first:
  "eval s (\<lambda>total_iters num_desired_updates. 1) demo_batches_first f1 now i vl b =
     (let s3 = ensure_dir ''./models_BERT''
                 (s\<lparr>calls := calls s @ [EvalCall i b], true_labels := Some [1, 0, 1],
                    predictions := Some [[1, 3], [3, 2], [4, 5]], preds := Some [1, 0, 1]\<rparr>)
      in if b < f1
         then Inr ((vl @ [1 / 4], f1),
                write_file (checkpoint_path (model_name s) now i f1) CheckpointState s3)
         else Inr ((vl @ [1 / 4], b), s3))"
proof -
  have c: "concat (map b_logits demo_batches_first) = [[1, 3], [3, 2], [4, 5]]"
    "concat (map b_label_ids demo_batches_first) = [1, 0, 1]"
    "sum_list (map b_loss demo_batches_first) / real (length demo_batches_first) = 1 / 4"
    by (simp_all add: demo_batches_first_def)
  from eval_returns [OF eval_ok_demo_first, of s f1 now i vl b]
  obtain pr where p: "np_argmax (concat (map b_logits demo_batches_first)) = Inr pr"
    and e: "eval s (\<lambda>total_iters num_desired_updates. 1) demo_batches_first f1 now i vl b =
             (let s3 = ensure_dir ''./models_BERT''
                         (s\<lparr>calls := calls s @ [EvalCall i b],
                            true_labels := Some (concat (map b_label_ids demo_batches_first)),
                            predictions := Some (concat (map b_logits demo_batches_first)),
                            preds := Some pr\<rparr>);
                  vl' = vl @ [sum_list (map b_loss demo_batches_first) /
                              real (length demo_batches_first)]
              in if b < f1
                 then Inr ((vl', f1),
                        write_file (checkpoint_path (model_name s) now i f1) CheckpointState s3)
                 else Inr ((vl', b), s3))"
    by blast
  from p have "pr = [1, 0, 1]"
    unfolding c np_argmax_demo_first by simp
  with e show ?thesis
    unfolding c by (simp add: Let_def)
qed

lemma fit_demo: "fit (init_bert ''bert'') demo_env demo_X 16 2 1 = Inr ((), demo_fitted)"
  by (simp add: fit_def demo_env_def demo_X_def upto_1_2 train_demo eval_demo eval_demo_first Let_def
      init_bert_def ensure_dir_def write_file_def checkpoint_path_values str_int_def
      str_nat_digit digit_char_values demo_fitted_def)

lemma fit_demo_again:
  "fit demo_fitted demo_env demo_X 16 1 2 =
     Inr ((), demo_fitted
            \<lparr>scheduler_steps := Some 7,
             files := files demo_fitted @
                      [(''./results/bert_epochs1_clf_report.csv'', ClfReport [1, 0, 1] [1, 0, 0])],
             calls := calls demo_fitted @ [TrainCall 1]\<rparr>)"
  by (simp add: fit_def demo_env_def demo_X_def upto.simps train_demo Let_def
      ensure_dir_def write_file_def str_int_def str_nat_digit digit_char_values demo_fitted_def)

subsection \<open>The scheduler and the schedule of calls\<close>

lemma train_epochs_loop_calls: "train_epochs (loop_calls k b js) = js"
  by (induction js) (simp_all add: loop_calls_def)

lemma eval_epochs_loop_calls: "eval_epochs (loop_calls k b js) = filter (\<lambda>i. i mod k = 0) js"
  by (induction js) (simp_all add: loop_calls_def)

lemma final_state_fit:
  "final_state (fit s e X_train batch_size epochs k) = s' \<Longrightarrow> batch_size \<noteq> 0 \<Longrightarrow>
   \<exists>s1. s1 = final_state (epoch_loop e
                 (good_update_interval e (int (length X_train) div batch_size + 1) 5) k [1..epochs]
                 \<lparr>best_score = 0, training_stats = [], train_loss = [], val_loss = []\<rparr>
                 (s\<lparr>scheduler_steps := Some ((int (length X_train) div batch_size + 1) * epochs)\<rparr>)) \<and>
     scheduler_steps s' = scheduler_steps s1 \<and> calls s' = calls s1"
  by (auto simp: fit_def Let_def final_state_def ensure_dir_def write_file_def
      split: sum.splits prod.splits option.splits if_splits)

lemma ceil_batches_dvd:
  assumes "0 < b" "b dvd int n"
  shows "ceil_batches n b = int n div b"
proof -
  from assms(2) obtain q where q: "int n = b * q" by (auto simp: dvd_def)
  have "real n = real_of_int (int n)" by simp
  also have "\<dots> = real_of_int b * real_of_int q" by (simp only: q of_int_mult)
  finally have "real n / real_of_int b = real_of_int q" using assms(1) by simp
  then have "ceil_batches n b = q" by (simp add: ceil_batches_def)
  moreover have "int n div b = q" using q assms(1) by simp
  ultimately show ?thesis by simp
qed

lemma ceil_batches_not_dvd:
  assumes "0 < b" "\<not> b dvd int n"
  shows "ceil_batches n b = int n div b + 1"
proof -
  have "real n / real_of_int b = real_of_int (int n) / real_of_int b" by simp
  then have "ceil_batches n b = - ((- int n) div b)"
    unfolding ceil_batches_def by (simp only: ceiling_divide_eq_div)
  moreover have "int n mod b \<noteq> 0" using assms(2) by (simp add: dvd_eq_mod_eq_0)
  ultimately show ?thesis using assms(1)
    by (simp add: zdiv_zminus1_eq_if)
qed

text \<open>
  C3: the number of steps that \<^verbatim>\<open>fit\<close> hands to the learning-rate scheduler is
  \<^verbatim>\<open>(len(X_train) // batch_size + 1) * epochs\<close>.  When the batch size divides the number
  of examples this is one batch per epoch more than the batches the data fill; when it does
  not, it is exactly that number.
\<close>

theorem fit_scheduler_total_steps:
  assumes "batch_size \<noteq> 0"
  shows "scheduler_steps (final_state (fit s e X_train batch_size epochs eval_interval)) =
           Some ((int (length X_train) div batch_size + 1) * epochs) \<and>
         (0 < batch_size \<and> batch_size dvd int (length X_train) \<longrightarrow>
            int (length X_train) div batch_size + 1 = ceil_batches (length X_train) batch_size + 1) \<and>
         (0 < batch_size \<and> \<not> batch_size dvd int (length X_train) \<longrightarrow>
            int (length X_train) div batch_size + 1 = ceil_batches (length X_train) batch_size)"
proof -
  from final_state_fit [OF refl assms]
  have "scheduler_steps (final_state (fit s e X_train batch_size epochs eval_interval)) =
           Some ((int (length X_train) div batch_size + 1) * epochs)"
    by (simp add: epoch_loop_scheduler_steps)
  then show ?thesis
    by (simp add: ceil_batches_dvd ceil_batches_not_dvd)
qed

text \<open>
  Witness for C3: 100 examples in batches of 16 over 3 epochs give 21 steps, and so do 96
  examples, which fill only 6 batches.
\<close>

theorem fit_scheduler_total_steps_witness:
  "scheduler_steps (final_state (fit (init_bert ''bert'') demo_env demo_X 16 3 5)) = Some 21 \<and>
   scheduler_steps (final_state (fit (init_bert ''bert'') demo_env (replicate 96 ''x'') 16 3 5)) = Some 21 \<and>
   ceil_batches 96 16 = 6 \<and> ceil_batches 100 16 = 7"
proof -
  have n: "(16::int) \<noteq> 0" by simp
  have d: "(0::int) < 16 \<and> 16 dvd int (length (replicate 96 ''x''))" by simp
  have nd: "(0::int) < 16 \<and> \<not> 16 dvd int (length demo_X)" by (simp add: demo_X_def)
  from fit_scheduler_total_steps [OF n, of "init_bert ''bert''" demo_env demo_X 3 5]
       fit_scheduler_total_steps [OF n, of "init_bert ''bert''" demo_env "replicate 96 ''x''" 3 5]
       d nd
  show ?thesis by (simp add: demo_X_def)
qed

text \<open>
  With \<^verbatim>\<open>eval_interval = 0\<close> the test \<^verbatim>\<open>epoch_i % eval_interval\<close> raises after the first
  training pass, so the schedule below is stated for a non-zero interval.
\<close>

lemma fit_zero_eval_interval:
  assumes "batch_size \<noteq> 0" "1 \<le> epochs" "train_out e 1 \<noteq> []"
    and "good_update_interval e (int (length X_train) div batch_size + 1) 5 \<noteq> 0"
  shows "fit s e X_train batch_size epochs 0 =
           Inl (ZeroDivisionError,
                s\<lparr>scheduler_steps := Some ((int (length X_train) div batch_size + 1) * epochs),
                  calls := calls s @ [TrainCall 1]\<rparr>)"
proof -
  from assms(2) have u: "[1..epochs] = 1 # [2..epochs]"
    by (simp add: upto_rec1)
  show ?thesis
    using assms(1) train_returns [OF assms(4) assms(3)]
    by (simp add: fit_def u Let_def)
qed

text \<open>
  C4: in a \<^verbatim>\<open>fit\<close> call with \<open>epochs = N\<close> and \<open>eval_interval = k\<close> in which no step
  raises, the calls made are those of the schedule: \<^verbatim>\<open>train\<close> once for each epoch index
  \<open>1, \<dots>, N\<close> in order, none skipped, and \<^verbatim>\<open>eval\<close> right after the training of exactly
  the epochs \<open>i\<close> with \<open>i mod k = 0\<close>.
\<close>

theorem fit_epoch_schedule:
  assumes "no_failure e X_train batch_size epochs eval_interval"
  shows "calls (final_state (fit s e X_train batch_size epochs eval_interval)) =
           calls s @ schedule epochs eval_interval 0 \<and>
         train_epochs (schedule epochs eval_interval 0) = [1..epochs] \<and>
         eval_epochs (schedule epochs eval_interval 0) =
           filter (\<lambda>i. i mod eval_interval = 0) [1..epochs]"
proof -
  from assms have b: "batch_size \<noteq> 0" by (simp add: no_failure_def)
  from fit_loop_returns [OF assms, of s] obtain l' s' where
    "epoch_loop e (good_update_interval e (int (length X_train) div batch_size + 1) 5)
       eval_interval [1..epochs]
       \<lparr>best_score = 0, training_stats = [], train_loss = [], val_loss = []\<rparr>
       (s\<lparr>scheduler_steps := Some ((int (length X_train) div batch_size + 1) * epochs)\<rparr>)
     = Inr (l', s')"
    and "calls s' = calls s @ schedule epochs eval_interval 0"
    by blast
  with final_state_fit [OF refl b, where s = s and e = e and X_train = X_train and epochs = epochs and k = eval_interval]
  have "calls (final_state (fit s e X_train batch_size epochs eval_interval)) =
           calls s @ schedule epochs eval_interval 0"
    by (simp add: final_state_def)
  then show ?thesis
    by (simp add: schedule_def train_epochs_loop_calls eval_epochs_loop_calls)
qed

text \<open>
  Witness for C4: with 2 epochs and an interval of 1 there are two training passes and two
  evaluations.
\<close>

theorem fit_epoch_schedule_witness:
  "calls (final_state (fit (init_bert ''bert'') demo_env demo_X 16 2 1)) =
     [TrainCall 1, EvalCall 1 0, TrainCall 2, EvalCall 2 0] \<and>
   train_epochs [TrainCall 1, EvalCall 1 0, TrainCall 2, EvalCall 2 0] = [1, 2] \<and>
   eval_epochs [TrainCall 1, EvalCall 1 0, TrainCall 2, EvalCall 2 0] = [1, 2]"
proof -
  have s: "schedule 2 1 0 = [TrainCall 1, EvalCall 1 0, TrainCall 2, EvalCall 2 0]"
    by (simp add: schedule_def loop_calls_def upto_1_2)
  from fit_epoch_schedule [OF no_failure_demo_2_1, of "init_bert ''bert''"]
  show ?thesis by (simp add: s init_bert_def)
qed

subsection \<open>Checkpoints and the best score\<close>

text \<open>
  C1, at an input where the code departs from it: 2 epochs, an evaluation in each, the first
  with F1 1 and the second with F1 2/3.  The claim has the second evaluation write
  nothing, 2/3 being below the best score 1 seen before; \<^verbatim>\<open>fit\<close> writes a checkpoint for
  both, since \<^verbatim>\<open>eval\<close> is handed the unchanged \<^verbatim>\<open>best_score = 0\<close> each time.
\<close>

theorem fit_writes_checkpoint_below_best:
  "eval_f1 demo_env 2 < eval_f1 demo_env 1 \<and>
   files (final_state (fit (init_bert ''bert'') demo_env demo_X 16 2 1)) =
     [(''./models_BERT/bert_11_04_07_34_EPOCH_1_F1_1.0.pth'', CheckpointState),
      (''./models_BERT/bert_11_04_07_34_EPOCH_2_F1_0.6667.pth'', CheckpointState),
      (''./results/bert_epochs2_clf_report.csv'', ClfReport [1, 0, 1] [1, 0, 0])]"
proof -
  have "eval_f1 demo_env 2 < eval_f1 demo_env 1"
    by (simp add: demo_env_def)
  moreover have "final_state (fit (init_bert ''bert'') demo_env demo_X 16 2 1) = demo_fitted"
    unfolding fit_demo by (simp add: final_state_def)
  ultimately show ?thesis
    by (simp add: demo_fitted_def)
qed

lemma eval_best_score:
  "eval s gui bs f1 now epoch_i vl b = Inr ((vl', b'), s') \<Longrightarrow> b' = (if b < f1 then f1 else b)"
  by (auto simp: eval_def Let_def split: sum.splits prod.splits if_splits)

text \<open>
  C2: the best-score tracker never decreases and changes only when an F1 strictly exceeds
  it.  This holds for the name \<^verbatim>\<open>best_score\<close> inside one \<^verbatim>\<open>eval\<close> call (its value when the
  body ends against the argument), and for the variable \<^verbatim>\<open>best_score\<close> of \<^verbatim>\<open>fit\<close> across
  any stretch of the epoch loop, whatever the F1 values are.
\<close>

theorem best_score_non_decreasing:
  "(eval s gui bs f1 now epoch_i vl b = Inr ((vl', b'), s') \<longrightarrow>
      b \<le> b' \<and> (b' \<noteq> b \<longrightarrow> b < f1)) \<and>
   (epoch_loop e update_interval k js l s0 = Inr (l1, s1) \<longrightarrow>
      best_score l \<le> best_score l1 \<and>
      (best_score l1 \<noteq> best_score l \<longrightarrow> (\<exists>i\<in>set js. i mod k = 0 \<and> best_score l < eval_f1 e i)))"
proof -
  have 1: "b \<le> b' \<and> (b' \<noteq> b \<longrightarrow> b < f1)"
    if "eval s gui bs f1 now epoch_i vl b = Inr ((vl', b'), s')"
    using eval_best_score [OF that] by (simp split: if_splits)
  have 2: "best_score l \<le> best_score l1 \<and>
      (best_score l1 \<noteq> best_score l \<longrightarrow> (\<exists>i\<in>set js. i mod k = 0 \<and> best_score l < eval_f1 e i))"
    if "epoch_loop e update_interval k js l s0 = Inr (l1, s1)"
    using epoch_loop_best_score [OF that] by simp
  from 1 2 show ?thesis by blast
qed

text \<open>
  Witness for C2: one evaluation with F1 2/3 from the tracker 0, and the two-epoch loop of
  the example run.
\<close>

theorem best_score_non_decreasing_witness:
  "(\<exists>vl' s'. eval (init_bert ''bert'') (\<lambda>total_iters num_desired_updates. 1) demo_batches
                (2 / 3) ''11_04_07_34'' 2 [] 0 = Inr ((vl', 2 / 3), s') \<and> (0::real) \<le> 2 / 3) \<and>
   (\<exists>l1 s1. epoch_loop demo_env 1 1 [1, 2]
               \<lparr>best_score = 0, training_stats = [], train_loss = [], val_loss = []\<rparr>
               (init_bert ''bert'') = Inr (l1, s1) \<and> 0 \<le> best_score l1)"
proof -
  let ?l0 = "\<lparr>best_score = 0, training_stats = [], train_loss = [], val_loss = []\<rparr>"
  have "\<exists>vl' s'. eval (init_bert ''bert'') (\<lambda>total_iters num_desired_updates. 1)
          demo_batches (2 / 3) ''11_04_07_34'' 2 [] 0 = Inr ((vl', 2 / 3), s')"
    by (simp add: eval_demo Let_def)
  then obtain vl' s' where
    ev: "eval (init_bert ''bert'') (\<lambda>total_iters num_desired_updates. 1) demo_batches
           (2 / 3) ''11_04_07_34'' 2 [] 0 = Inr ((vl', 2 / 3), s')"
    by blast
  have n: "(1::int) \<noteq> 0"
    by simp
  have h: "\<forall>i\<in>set [1, 2]. train_out demo_env i \<noteq> [] \<and>
             (i mod 1 = 0 \<longrightarrow> eval_ok (good_update_interval demo_env) (eval_out demo_env i))"
    using eval_ok_demo eval_ok_demo_first by (simp add: demo_env_def)
  from epoch_loop_returns [OF n n h, of ?l0 "init_bert ''bert''"]
  have "\<exists>l1 s1. epoch_loop demo_env 1 1 [1, 2] ?l0 (init_bert ''bert'') = Inr (l1, s1)"
    by blast
  then obtain l1 s1 where
    lp: "epoch_loop demo_env 1 1 [1, 2] ?l0 (init_bert ''bert'') = Inr (l1, s1)"
    by blast
  from best_score_non_decreasing
         [where s = "init_bert ''bert''" and gui = "\<lambda>total_iters num_desired_updates. 1"
            and bs = demo_batches and ?f1.0 = "2 / 3" and now = "''11_04_07_34''"
            and epoch_i = 2 and vl = "[]" and b = 0 and vl' = vl' and b' = "2 / 3" and s' = s'
            and e = demo_env and update_interval = 1 and k = 1 and js = "[1, 2]" and l = ?l0
            and ?s0.0 = "init_bert ''bert''" and ?l1.0 = l1 and ?s1.0 = s1]
       ev lp
  show ?thesis by simp
qed

subsection \<open>Evaluation results and average losses\<close>

text \<open>
  C5: for batch outputs on which \<^verbatim>\<open>eval\<close> does not raise, built by the batch source from
  a data set with the labels \<open>y\<close>, the evaluation returns, \<^verbatim>\<open>predictions\<close> and
  \<^verbatim>\<open>true_labels\<close> are the per-batch logits and labels concatenated in batch order,
  \<^verbatim>\<open>true_labels\<close> holds the labels of the data set with none dropped or duplicated,
  \<^verbatim>\<open>preds[i]\<close> is the lowest position of the maximum of \<^verbatim>\<open>predictions[i]\<close>, and the three
  have as many entries as the data set has examples, whatever the sizes of the batches.
\<close>

theorem eval_result_concatenation:
  assumes "eval_ok gui bs" and "batches_of y bs"
  shows "\<exists>vl' b' s' pr.
           eval s gui bs f1 now epoch_i vl b = Inr ((vl', b'), s') \<and>
           predictions s' = Some (concat (map b_logits bs)) \<and>
           true_labels s' = Some (concat (map b_label_ids bs)) \<and>
           preds s' = Some pr \<and>
           mset (concat (map b_label_ids bs)) = mset y \<and>
           length (concat (map b_logits bs)) = length y \<and>
           length (concat (map b_label_ids bs)) = length y \<and>
           length pr = length y \<and>
           total_examples bs = length y \<and>
           (\<forall>i<length y. is_argmax (concat (map b_logits bs) ! i) (pr ! i))"
proof -
  from assms(1) have al: "\<forall>b\<in>set bs. length (b_logits b) = length (b_label_ids b)"
    by (simp add: eval_ok_def)
  from assms(2) have m: "mset (concat (map b_label_ids bs)) = mset y"
    by (simp add: batches_of_def)
  note len = length_concat_logits [OF al]
  from m have "length (concat (map b_label_ids bs)) = length y"
    by (rule mset_eq_length)
  with len have t: "total_examples bs = length y"
    by simp
  from eval_returns [OF assms(1), of s f1 now epoch_i vl b] len m
  show ?thesis
    unfolding t by (auto simp: Let_def ensure_dir_def write_file_def)
qed

text \<open>
  Witness for C5: a data set with the labels 0, 1, 1 in batches of two and one (the batch
  size 2 does not divide 3; the row \<open>[2, 2]\<close> is a tie), and a data set with the labels
  0, 1 in one batch of two.
\<close>

theorem eval_result_concatenation_witness:
  "(\<exists>vl' b' s'.
      eval (init_bert ''bert'') (\<lambda>total_iters num_desired_updates. 1) demo_batches (2 / 3)
        ''11_04_07_34'' 2 [] 0 = Inr ((vl', b'), s') \<and>
      predictions s' = Some [[1, 3], [2, 2], [5, 4]] \<and>
      true_labels s' = Some [1, 0, 1] \<and>
      preds s' = Some [1, 0, 0] \<and>
      is_argmax [1, 3] 1 \<and> is_argmax [2, 2] 0 \<and> is_argmax [5, 4] 0) \<and>
   (\<exists>vl' b' s' pr.
      eval (init_bert ''bert'') (\<lambda>total_iters num_desired_updates. 1) demo_batches_even 1
        ''11_04_07_34'' 1 [] 0 = Inr ((vl', b'), s') \<and>
      predictions s' = Some [[1, 3], [2, 2]] \<and>
      true_labels s' = Some [1, 0] \<and>
      preds s' = Some pr \<and> length pr = 2)"
proof -
  have y: "batches_of [0, 1, 1] demo_batches"
    by (simp add: batches_of_def demo_batches_def)
  have c: "concat (map b_logits demo_batches) = [[1, 3], [2, 2], [5, 4]]"
    "concat (map b_label_ids demo_batches) = [1, 0, 1]"
    by (simp_all add: demo_batches_def)
  from eval_result_concatenation [OF eval_ok_demo y, of "init_bert ''bert''" "2 / 3"
      "''11_04_07_34''" 2 "[]" 0]
  obtain vl' b' s' pr where
    r: "eval (init_bert ''bert'') (\<lambda>total_iters num_desired_updates. 1) demo_batches (2 / 3)
          ''11_04_07_34'' 2 [] 0 = Inr ((vl', b'), s')"
      "predictions s' = Some [[1, 3], [2, 2], [5, 4]]"
      "true_labels s' = Some [1, 0, 1]"
      "preds s' = Some pr" "length pr = 3"
    and a: "\<forall>i<3. is_argmax ([[1, 3], [2, 2], [5, 4]] ! i) (pr ! i)"
    unfolding c by auto
  have "preds (snd (projr (eval (init_bert ''bert'') (\<lambda>total_iters num_desired_updates. 1)
          demo_batches (2 / 3) ''11_04_07_34'' 2 [] 0))) = Some [1, 0, 0]"
    by (simp add: eval_demo Let_def ensure_dir_def write_file_def)
  with r(1) r(4) have pr: "pr = [1, 0, 0]"
    by simp
  from a [rule_format, of 0] a [rule_format, of 1] a [rule_format, of 2]
  have "is_argmax [1, 3] 1" "is_argmax [2, 2] 0" "is_argmax [5, 4] 0"
    unfolding pr by simp_all
  with r pr have 1: "\<exists>vl' b' s'.
      eval (init_bert ''bert'') (\<lambda>total_iters num_desired_updates. 1) demo_batches (2 / 3)
        ''11_04_07_34'' 2 [] 0 = Inr ((vl', b'), s') \<and>
      predictions s' = Some [[1, 3], [2, 2], [5, 4]] \<and>
      true_labels s' = Some [1, 0, 1] \<and>
      preds s' = Some [1, 0, 0] \<and>
      is_argmax [1, 3] 1 \<and> is_argmax [2, 2] 0 \<and> is_argmax [5, 4] 0"
    by blast
  have ok: "eval_ok (\<lambda>total_iters num_desired_updates. 1) demo_batches_even"
    by (simp add: eval_ok_def demo_batches_even_def uniform_width_def)
  have ye: "batches_of [0, 1] demo_batches_even"
    by (simp add: batches_of_def demo_batches_even_def)
  have ce: "concat (map b_logits demo_batches_even) = [[1, 3], [2, 2]]"
    "concat (map b_label_ids demo_batches_even) = [1, 0]"
    by (simp_all add: demo_batches_even_def)
  from eval_result_concatenation [OF ok ye, of "init_bert ''bert''" 1 "''11_04_07_34''" 1 "[]" 0]
  have 2: "\<exists>vl' b' s' pr.
      eval (init_bert ''bert'') (\<lambda>total_iters num_desired_updates. 1) demo_batches_even 1
        ''11_04_07_34'' 1 [] 0 = Inr ((vl', b'), s') \<and>
      predictions s' = Some [[1, 3], [2, 2]] \<and>
      true_labels s' = Some [1, 0] \<and>
      preds s' = Some pr \<and> length pr = 2"
    unfolding ce by auto
  from 1 2 show ?thesis by blast
qed

text \<open>
  C6: for a non-empty sequence of batches (and a non-zero update interval), the average
  training loss that \<^verbatim>\<open>train\<close> records and the average validation loss that the first
  part of \<^verbatim>\<open>eval\<close> appends to \<^verbatim>\<open>val_loss\<close> are the sum of the per-batch losses divided
  by the number of batches; the sizes of the batches do not enter.  When \<^verbatim>\<open>eval\<close> returns,
  that is the list it leaves.
\<close>

theorem average_loss_is_mean_of_batch_losses:
  "(losses \<noteq> [] \<and> update_interval \<noteq> 0 \<longrightarrow>
      (\<exists>s'. train s losses update_interval epoch_i stats tloss =
               Inr ((stats @ [(epoch_i, sum_list losses / real (length losses))],
                     tloss @ [sum_list losses / real (length losses)]), s'))) \<and>
   (bs \<noteq> [] \<and> update_interval \<noteq> 0 \<longrightarrow>
      eval_pass update_interval bs vl =
        Inr (vl @ [sum_list (map b_loss bs) / real (length bs)],
             map b_logits bs, map b_label_ids bs)) \<and>
   (eval_ok gui bs \<longrightarrow>
      (\<exists>b' s'. eval s gui bs f1 now epoch_i vl b =
                  Inr ((vl @ [sum_list (map b_loss bs) / real (length bs)], b'), s')))"
proof (intro conjI impI)
  assume "losses \<noteq> [] \<and> update_interval \<noteq> 0"
  then show "\<exists>s'. train s losses update_interval epoch_i stats tloss =
               Inr ((stats @ [(epoch_i, sum_list losses / real (length losses))],
                     tloss @ [sum_list losses / real (length losses)]), s')"
    by (simp add: train_returns)
next
  assume "bs \<noteq> [] \<and> update_interval \<noteq> 0"
  then show "eval_pass update_interval bs vl =
        Inr (vl @ [sum_list (map b_loss bs) / real (length bs)],
             map b_logits bs, map b_label_ids bs)"
    by (simp add: eval_pass_returns)
next
  assume "eval_ok gui bs"
  from eval_returns [OF this, of s f1 now epoch_i vl b]
  show "\<exists>b' s'. eval s gui bs f1 now epoch_i vl b =
                  Inr ((vl @ [sum_list (map b_loss bs) / real (length bs)], b'), s')"
    by (auto simp: Let_def)
qed

text \<open>
  Witness for C6: losses 3/4 and 1/4 average to 1/2; the validation losses 1/2 (two
  examples) and 1/4 (one example) average to 3/8, not to the example-weighted 5/12.
\<close>

theorem average_loss_is_mean_of_batch_losses_witness:
  "(\<exists>s'. train (init_bert ''bert'') [3 / 4, 1 / 4] 1 2 [] [] =
            Inr (([(2, 1 / 2)], [1 / 2]), s')) \<and>
   (\<exists>ps ts. eval_pass 1 demo_batches [] = Inr ([3 / 8], ps, ts)) \<and>
   (\<exists>b' s'. eval (init_bert ''bert'') (\<lambda>total_iters num_desired_updates. 1) demo_batches
               (2 / 3) ''11_04_07_34'' 2 [] 0 = Inr (([3 / 8], b'), s')) \<and>
   (2 * (1 / 2) + 1 * (1 / 4)) / 3 \<noteq> (3 / 8 :: real)"
proof -
  have h: "[3 / 4, 1 / 4 :: real] \<noteq> [] \<and> (1::int) \<noteq> 0" by simp
  have n: "demo_batches \<noteq> [] \<and> (1::int) \<noteq> 0"
    by (simp add: demo_batches_def)
  have m: "sum_list (map b_loss demo_batches) / real (length demo_batches) = 3 / 8"
    by (simp add: demo_batches_def)
  from average_loss_is_mean_of_batch_losses
         [where losses = "[3 / 4, 1 / 4]" and update_interval = 1 and s = "init_bert ''bert''"
            and epoch_i = 2 and stats = "[]" and tloss = "[]"
            and gui = "\<lambda>total_iters num_desired_updates. 1" and bs = demo_batches
            and ?f1.0 = "2 / 3" and now = "''11_04_07_34''" and vl = "[]" and b = 0]
       h n eval_ok_demo
  show ?thesis
    unfolding m by simp
qed

subsection \<open>Prediction on no text\<close>

text \<open>
  C7, at the input where the code departs from it: \<^verbatim>\<open>pred\<close> on an empty text sequence, for
  which the batch source yields no batch.  The claim has \<^verbatim>\<open>pred\<close> return an empty array
  and write the CSV; \<^verbatim>\<open>np.concatenate\<close> raises \<^verbatim>\<open>ValueError\<close> on the empty list of
  logits, before anything is written.
\<close>

theorem pred_empty_raises_value_error:
  "pred s gui [] [] model_type today = Inl (ValueError, s)"
  by (simp add: pred_def np_concatenate_rows_def)


lemma pred_empty_texts_returns:
  assumes "pred s gui outs [] model_type today = Inr r"
  shows "outs \<noteq> [] \<and> concat outs = []"
proof -
  have "outs \<noteq> []"
    using assms by (auto simp: pred_empty_raises_no_batches)
  moreover have "concat outs = []"
  proof (cases "gui (int (length outs)) 10 = 0")
    case True
    with \<open>outs \<noteq> []\<close> assms show ?thesis
      by (cases outs) (simp_all add: pred_def)
  next
    case False
    then have "pred_loop (gui (int (length outs)) 10) outs [] = Inr ([] @ outs)"
      by (rule pred_loop_acc)
    with assms \<open>outs \<noteq> []\<close> show ?thesis
      by (cases "np_argmax (concat outs)")
         (auto simp: pred_def np_concatenate_rows_def Let_def dest: np_argmax_length
            split: if_splits)
  qed
  ultimately show ?thesis by simp
qed

subsection \<open>The report without an evaluation\<close>

text \<open>
  C9, as stated: a \<^verbatim>\<open>fit\<close> call whose epoch loop makes no evaluation raises
  \<^verbatim>\<open>AttributeError\<close> and writes no report.  On the object that an earlier \<^verbatim>\<open>fit\<close> call
  with evaluations has left, a call with 1 epoch and an interval of 2 makes no evaluation,
  returns, and writes a report from the labels and predictions that the earlier call stored.
\<close>

theorem fit_stale_attributes_counterexample:
  "fit (init_bert ''bert'') demo_env demo_X 16 2 1 = Inr ((), demo_fitted) \<and>
   eval_epochs (schedule 1 2 0) = [] \<and>
   fit demo_fitted demo_env demo_X 16 1 2 =
     Inr ((), demo_fitted
            \<lparr>scheduler_steps := Some 7,
             files := files demo_fitted @
                      [(''./results/bert_epochs1_clf_report.csv'', ClfReport [1, 0, 1] [1, 0, 0])],
             calls := calls demo_fitted @ [TrainCall 1]\<rparr>)"
  by (simp add: fit_demo fit_demo_again schedule_def loop_calls_def upto.simps)

text \<open>
  In a call without an evaluation, on an object that holds both attributes from an
  earlier evaluation, the report is made from those: \<^verbatim>\<open>fit\<close> returns and writes it, or
  raises \<^verbatim>\<open>ValueError\<close> when the two arrays differ in length or are empty.
\<close>

lemma fit_without_evaluation_stale:
  assumes "no_failure e X_train batch_size epochs eval_interval"
    and "\<forall>i\<in>set [1..epochs]. i mod eval_interval \<noteq> 0"
    and "true_labels s = Some T" "preds s = Some pr"
  shows "fit s e X_train batch_size epochs eval_interval =
           (let s1 = s\<lparr>scheduler_steps :=
                         Some ((int (length X_train) div batch_size + 1) * epochs),
                       calls := calls s @ map TrainCall [1..epochs]\<rparr>
            in if length T \<noteq> length pr then Inl (ValueError, s1)
               else if T = [] then Inl (ValueError, s1)
               else Inr ((), write_file
                               (''./results/'' @ model_name s @ ''_epochs'' @ str_int epochs @
                                  ''_clf_report.csv'')
                               (ClfReport T pr) (ensure_dir ''./results'' s1)))"
proof -
  from assms(1) have b: "batch_size \<noteq> 0" and k: "eval_interval \<noteq> 0"
    and u: "good_update_interval e (int (length X_train) div batch_size + 1) 5 \<noteq> 0"
    and t: "\<forall>i\<in>set [1..epochs]. train_out e i \<noteq> []"
    by (simp_all add: no_failure_def)
  from t assms(2) have a: "\<forall>i\<in>set [1..epochs]. train_out e i \<noteq> [] \<and> i mod eval_interval \<noteq> 0"
    by simp
  let ?s0 = "s\<lparr>scheduler_steps := Some ((int (length X_train) div batch_size + 1) * epochs)\<rparr>"
  from epoch_loop_no_eval [OF u k a,
      of "\<lparr>best_score = 0, training_stats = [], train_loss = [], val_loss = []\<rparr>" ?s0]
  obtain l' where
    "epoch_loop e (good_update_interval e (int (length X_train) div batch_size + 1) 5)
       eval_interval [1..epochs]
       \<lparr>best_score = 0, training_stats = [], train_loss = [], val_loss = []\<rparr> ?s0 =
     Inr (l', ?s0\<lparr>calls := calls ?s0 @ map TrainCall [1..epochs]\<rparr>)"
    by blast
  with b assms(3,4) show ?thesis
    by (simp add: fit_def Let_def ensure_dir_def)
qed

text \<open>
  C9, amended: when \<^verbatim>\<open>self.true_labels\<close> or \<^verbatim>\<open>self.preds\<close> has not been assigned before
  the call, no step of the epoch loop raises, and no epoch index in \<open>1, \<dots>, epochs\<close> is a
  multiple of the interval, \<^verbatim>\<open>fit\<close> trains in every epoch and then raises
  \<^verbatim>\<open>AttributeError\<close>, and neither a file nor a directory is written.
\<close>

theorem fit_without_evaluation_raises_attribute_error:
  assumes "no_failure e X_train batch_size epochs eval_interval"
    and "\<forall>i\<in>set [1..epochs]. i mod eval_interval \<noteq> 0"
    and "true_labels s = None \<or> preds s = None"
  shows "\<exists>s'. fit s e X_train batch_size epochs eval_interval = Inl (AttributeError, s') \<and>
              files s' = files s \<and> dirs s' = dirs s \<and>
              calls s' = calls s @ map TrainCall [1..epochs]"
proof -
  from assms(1) have b: "batch_size \<noteq> 0" and k: "eval_interval \<noteq> 0"
    and u: "good_update_interval e (int (length X_train) div batch_size + 1) 5 \<noteq> 0"
    and t: "\<forall>i\<in>set [1..epochs]. train_out e i \<noteq> []"
    by (simp_all add: no_failure_def)
  from t assms(2) have a: "\<forall>i\<in>set [1..epochs]. train_out e i \<noteq> [] \<and> i mod eval_interval \<noteq> 0"
    by simp
  let ?s0 = "s\<lparr>scheduler_steps := Some ((int (length X_train) div batch_size + 1) * epochs)\<rparr>"
  from epoch_loop_no_eval [OF u k a,
      of "\<lparr>best_score = 0, training_stats = [], train_loss = [], val_loss = []\<rparr>" ?s0]
  obtain l' where
    "epoch_loop e (good_update_interval e (int (length X_train) div batch_size + 1) 5)
       eval_interval [1..epochs]
       \<lparr>best_score = 0, training_stats = [], train_loss = [], val_loss = []\<rparr> ?s0 =
     Inr (l', ?s0\<lparr>calls := calls ?s0 @ map TrainCall [1..epochs]\<rparr>)"
    by blast
  with b assms(3) show ?thesis
    by (auto simp: fit_def Let_def split: option.splits)
qed

text \<open>Witness for C9 (amended): a new object, 3 epochs, an interval of 5.\<close>

theorem fit_without_evaluation_raises_attribute_error_witness:
  "\<exists>s'. fit (init_bert ''bert'') demo_env demo_X 16 3 5 = Inl (AttributeError, s') \<and>
         files s' = [] \<and> dirs s' = [] \<and> calls s' = [TrainCall 1, TrainCall 2, TrainCall 3]"
proof -
  have n: "\<forall>i\<in>set [1..3]. i mod 5 \<noteq> (0::int)"
    by (simp add: upto_1_3)
  have f: "true_labels (init_bert ''bert'') = None \<or> preds (init_bert ''bert'') = None"
    by (simp add: init_bert_def)
  from fit_without_evaluation_raises_attribute_error [OF no_failure_demo_3_5 n f]
  show ?thesis
    by (simp add: upto_1_3 init_bert_def)
qed

end
